theory Spec2Isabelle
  imports Complex_Main "HOL-Library.Sublist"
begin

section \<open>JavaScript values used by the loaders\<close>

text \<open>
  The loaders are TypeScript running on Node. Their numbers are modelled as exact
  rationals; the one non-numeric value the loaders can produce, \<open>NaN\<close> (from
  \<open>parseFloat\<close> on a string with no numeric prefix), is kept as a value of its own,
  because it neither throws nor compares. Infinite values are not modelled.
  Strings are lists of 8-bit characters; the emoji of the log messages are written
  as their UTF-8 bytes.
\<close>

datatype number = NaN | Num rat

text \<open>\<open>a < b\<close> and \<open>a <= b\<close> on JavaScript numbers: false as soon as one side is NaN.\<close>

fun js_lt :: "number \<Rightarrow> number \<Rightarrow> bool" where
  "js_lt (Num a) (Num b) = (a < b)"
| "js_lt _ _ = False"

fun js_le :: "number \<Rightarrow> number \<Rightarrow> bool" where
  "js_le (Num a) (Num b) = (a \<le> b)"
| "js_le _ _ = False"

fun js_mul :: "number \<Rightarrow> rat \<Rightarrow> number" where
  "js_mul (Num a) b = Num (a * b)"
| "js_mul NaN _ = NaN"

fun js_div :: "number \<Rightarrow> rat \<Rightarrow> number" where
  "js_div (Num a) b = Num (a / b)"
| "js_div NaN _ = NaN"

text \<open>\<open>Math.round\<close>: the nearest integer, halves towards plus infinity.\<close>

definition round_rat :: "rat \<Rightarrow> rat" where
  "round_rat x = of_int \<lfloor>x + 1 / 2\<rfloor>"

fun Math_round :: "number \<Rightarrow> number" where
  "Math_round (Num a) = Num (round_rat a)"
| "Math_round NaN = NaN"

definition is_integer :: "rat \<Rightarrow> bool" where
  "is_integer x = (of_int \<lfloor>x\<rfloor> = x)"

subsection \<open>Strings\<close>

definition is_digit :: "char \<Rightarrow> bool" where
  "is_digit c = (c \<in> set ''0123456789'')"

definition digit_value :: "char \<Rightarrow> nat" where
  "digit_value c = (case map_of (zip ''0123456789'' [0, 1, 2, 3, 4, 5, 6, 7, 8, 9]) c of
                      Some d \<Rightarrow> d | None \<Rightarrow> 0)"

definition digits_value :: "string \<Rightarrow> nat" where
  "digits_value ds = foldl (\<lambda>a c. 10 * a + digit_value c) 0 ds"

definition is_space :: "char \<Rightarrow> bool" where
  "is_space c = (c \<in> {CHR '' '', CHR 0x09, CHR 0x0A, CHR 0x0B, CHR 0x0C, CHR 0x0D})"

text \<open>
  \<open>parseFloat\<close>: leading white space is skipped, then the longest prefix of the form
  sign, digits, fraction, exponent is read; with no digit at all the result is NaN.
  Whatever follows the numeric prefix is ignored. (The literal \<open>Infinity\<close> is read
  as NaN here, infinite values being outside the model.)
\<close>

definition split_sign :: "string \<Rightarrow> bool \<times> string" where
  "split_sign s =
     (case s of
        [] \<Rightarrow> (False, [])
      | c # r \<Rightarrow> if c = CHR ''-'' then (True, r)
                 else if c = CHR ''+'' then (False, r)
                 else (False, s))"

definition parse_exponent :: "string \<Rightarrow> int" where
  "parse_exponent s =
     (case s of
        [] \<Rightarrow> 0
      | c # r \<Rightarrow>
          if c = CHR ''e'' \<or> c = CHR ''E'' then
            (let (neg, r') = split_sign r; ds = takeWhile is_digit r'
             in if ds = [] then 0
                else if neg then - int (digits_value ds) else int (digits_value ds))
          else 0)"

definition parseFloat :: "string \<Rightarrow> number" where
  "parseFloat s =
     (let (neg, s1) = split_sign (dropWhile is_space s);
          ip = takeWhile is_digit s1;
          r1 = dropWhile is_digit s1;
          has_dot = (case r1 of [] \<Rightarrow> False | c # _ \<Rightarrow> c = CHR ''.'');
          fp = (if has_dot then takeWhile is_digit (tl r1) else []);
          r2 = (if has_dot then dropWhile is_digit (tl r1) else r1);
          m = of_nat (digits_value ip) + of_nat (digits_value fp) / 10 ^ length fp;
          e = parse_exponent r2;
          v = (if 0 \<le> e then m * 10 ^ nat e else m / 10 ^ nat (- e))
      in if ip = [] \<and> fp = [] then NaN
         else Num (if neg then - v else v))"

text \<open>\<open>toLowerCase\<close> and \<open>toUpperCase\<close>, on the ASCII letters.\<close>

definition lower_char :: "char \<Rightarrow> char" where
  "lower_char c =
     (case map_of (zip ''ABCDEFGHIJKLMNOPQRSTUVWXYZ'' ''abcdefghijklmnopqrstuvwxyz'') c of
        Some d \<Rightarrow> d | None \<Rightarrow> c)"

definition upper_char :: "char \<Rightarrow> char" where
  "upper_char c =
     (case map_of (zip ''abcdefghijklmnopqrstuvwxyz'' ''ABCDEFGHIJKLMNOPQRSTUVWXYZ'') c of
        Some d \<Rightarrow> d | None \<Rightarrow> c)"

definition toLowerCase :: "string \<Rightarrow> string" where
  "toLowerCase s = map lower_char s"

definition toUpperCase :: "string \<Rightarrow> string" where
  "toUpperCase s = map upper_char s"

text \<open>\<open>hay.includes(needle)\<close> on strings: \<open>needle\<close> occurs as a contiguous part.\<close>

fun str_includes :: "string \<Rightarrow> string \<Rightarrow> bool" where
  "str_includes [] needle = (needle = [])"
| "str_includes (c # cs) needle = (prefix needle (c # cs) \<or> str_includes cs needle)"

text \<open>
  Number to string, as template literals do it: exact for integers; for other
  values the fractional digits are cut after twenty places.
\<close>

definition digit_char :: "nat \<Rightarrow> char" where
  "digit_char d = ''0123456789'' ! (d mod 10)"

fun string_of_nat :: "nat \<Rightarrow> string" where
  "string_of_nat n =
     (if n < 10 then [digit_char n] else string_of_nat (n div 10) @ [digit_char (n mod 10)])"

declare string_of_nat.simps [simp del]

fun frac_digits :: "nat \<Rightarrow> rat \<Rightarrow> string" where
  "frac_digits 0 r = []"
| "frac_digits (Suc k) r =
     (if r = 0 then []
      else (let d = nat \<lfloor>r * 10\<rfloor>
            in digit_char d # frac_digits k (r * 10 - of_nat d)))"

definition number_to_string :: "rat \<Rightarrow> string" where
  "number_to_string x =
     (let a = \<bar>x\<bar>; ip = nat \<lfloor>a\<rfloor>; fr = a - of_nat ip
      in (if x < 0 then ''-'' else '''') @ string_of_nat ip
         @ (if fr = 0 then '''' else ''.'' @ frac_digits 20 fr))"

text \<open>A value is falsy in a condition when it is absent or the empty string.\<close>

fun truthy :: "string option \<Rightarrow> bool" where
  "truthy None = False"
| "truthy (Some s) = (s \<noteq> [])"

subsection \<open>Exceptions, promises and observable effects\<close>

datatype exn = Error string | TypeError string | SyntaxError string

text \<open>A settled promise: \<open>Inl\<close> is a rejection, \<open>Inr\<close> the resolved value.\<close>

type_synonym 'a promise = "exn + 'a"

text \<open>
  What a run does besides returning: console output and the HTTP requests it issues,
  in program order. \<open>console.error(msg, error)\<close> carries the caught exception.
  A request is recorded by its URL; its headers carry the credentials and have no
  influence on what the loader does with the response.
\<close>

datatype event =
    ConsoleLog string
  | ConsoleWarn string
  | ConsoleError string exn
  | Fetch string

fun is_error :: "event \<Rightarrow> bool" where
  "is_error (ConsoleError _ _) = True"
| "is_error _ = False"

fun is_warning :: "event \<Rightarrow> bool" where
  "is_warning (ConsoleWarn _) = True"
| "is_warning _ = False"

fun is_fetch :: "event \<Rightarrow> bool" where
  "is_fetch (Fetch _) = True"
| "is_fetch _ = False"

text \<open>
  An HTTP response as the loaders read it: the \<open>ok\<close> flag, the status line and the
  outcome of \<open>json()\<close>, typed by the interface the loader declares for the body.
  A \<open>fetch\<close> itself settles to a response or rejects.
\<close>

datatype 'a response = Response (ok: bool) (status: nat) (statusText: string) (json: "'a promise")

type_synonym 'a fetched = "'a response promise"

text \<open>\<open>process.env\<close>.\<close>

type_synonym env = "string \<Rightarrow> string option"

text \<open>
  Sequencing of a computation that may throw. It also stands for \<open>await\<close> on
  \<open>Promise.all\<close> of several promises: the first rejection in the order of the array
  is the one thrown (at run time it is the earliest one; only the exception that gets
  logged depends on this).
\<close>

fun and_then :: "exn + 'a \<Rightarrow> ('a \<Rightarrow> exn + 'b) \<Rightarrow> exn + 'b" where
  "and_then (Inl e) f = Inl e"
| "and_then (Inr v) f = f v"

text \<open>\<open>xs.map(f)\<close> with a callback that may throw: the first exception ends the map.\<close>

fun map_throwing :: "('a \<Rightarrow> exn + 'b) \<Rightarrow> 'a list \<Rightarrow> exn + 'b list" where
  "map_throwing f [] = Inr []"
| "map_throwing f (x # xs) =
     (case f x of
        Inl e \<Rightarrow> Inl e
      | Inr y \<Rightarrow> (case map_throwing f xs of Inl e \<Rightarrow> Inl e | Inr ys \<Rightarrow> Inr (y # ys)))"

definition warning_sign :: string where
  "warning_sign = [CHR 0xE2, CHR 0x9A, CHR 0xA0, CHR 0xEF, CHR 0xB8, CHR 0x8F]"

definition check_mark :: string where
  "check_mark = [CHR 0xE2, CHR 0x9C, CHR 0x85]"

definition cross_mark :: string where
  "cross_mark = [CHR 0xE2, CHR 0x9D, CHR 0x8C]"

definition rocket :: string where
  "rocket = [CHR 0xF0, CHR 0x9F, CHR 0x9A, CHR 0x80]"


section \<open>The candidate plan record and the schema\<close>

text \<open>
  The object literal every loader returns per plan. \<open>yearly\<close> and the bandwidth
  \<open>amount\<close> are optional in the schema; \<open>description\<close> is set by the Hetzner loader
  only and may be undefined there. The loaders never set \<open>createdAt\<close> or
  \<open>updatedAt\<close>, and they always give the fields for which the schema has defaults.
\<close>

record price_rec =
  monthly :: number
  yearly :: "number option"
  currency :: string

record cpu_rec =
  cores :: rat
  cpu_type :: string

record ram_rec =
  ram_amount :: rat
  ram_unit :: string

record storage_rec =
  storage_amount :: rat
  storage_unit :: string
  storage_type :: string

record bandwidth_rec =
  bandwidth_amount :: "rat option"
  bandwidth_unit :: string
  unlimited :: bool

record specs_rec =
  cpu :: cpu_rec
  ram :: ram_rec
  storage :: storage_rec
  bandwidth :: bandwidth_rec

record uptime_rec =
  percentage :: rat
  sla :: bool

record plan =
  plan_id :: string
  provider :: string
  name :: string
  description :: "string option"
  price :: price_rec
  specs :: specs_rec
  features :: "string list"
  locations :: "string list"
  uptime :: uptime_rec
  support :: string
  website :: string
  featured :: bool
  tags :: "string list"

text \<open>
  \<open>vpsSchema\<close>. Each violated constraint gives one issue: the path of the field and
  the message (the schema's own where it declares one). The URL check of the
  validation library accepts what the platform's URL parser accepts; here: an
  \<open>http\<close> or \<open>https\<close> scheme followed by a non-empty host.
\<close>

type_synonym issue = "string list \<times> string"

definition check :: "bool \<Rightarrow> string list \<Rightarrow> string \<Rightarrow> issue list" where
  "check c path msg = (if c then [] else [(path, msg)])"

fun positive_number :: "number \<Rightarrow> string list \<Rightarrow> string \<Rightarrow> issue list" where
  "positive_number NaN path msg = [(path, ''Expected number, received nan'')]"
| "positive_number (Num x) path msg = check (0 < x) path msg"

definition valid_url :: "string \<Rightarrow> bool" where
  "valid_url s =
     (let rest = (if prefix ''https://'' s then Some (drop 8 s)
                  else if prefix ''http://'' s then Some (drop 7 s)
                  else None)
      in case rest of
           None \<Rightarrow> False
         | Some r \<Rightarrow> takeWhile (\<lambda>c. c \<notin> set ''/?#'') r \<noteq> [])"

definition vpsSchema :: "plan \<Rightarrow> issue list" where
  "vpsSchema p =
     check (1 \<le> length (plan_id p)) [''id''] ''ID is required''
   @ check (1 \<le> length (provider p)) [''provider''] ''Provider name is required''
   @ check (1 \<le> length (name p)) [''name''] ''Plan name is required''
   @ positive_number (monthly (price p)) [''price'', ''monthly''] ''Monthly price must be positive''
   @ (case yearly (price p) of
        None \<Rightarrow> []
      | Some y \<Rightarrow> positive_number y [''price'', ''yearly''] ''Yearly price must be positive'')
   @ check (currency (price p) \<in> set [''USD'', ''EUR'', ''GBP''])
       [''price'', ''currency''] ''Currency must be USD, EUR, or GBP''
   @ check (is_integer (cores (cpu (specs p))))
       [''specs'', ''cpu'', ''cores''] ''Expected integer, received float''
   @ check (0 < cores (cpu (specs p)))
       [''specs'', ''cpu'', ''cores''] ''CPU cores must be a positive integer''
   @ check (cpu_type (cpu (specs p)) \<in> set [''vCPU'', ''CPU'', ''Core''])
       [''specs'', ''cpu'', ''type''] ''Invalid enum value''
   @ check (0 < ram_amount (ram (specs p)))
       [''specs'', ''ram'', ''amount''] ''RAM amount must be positive''
   @ check (ram_unit (ram (specs p)) \<in> set [''MB'', ''GB'', ''TB''])
       [''specs'', ''ram'', ''unit''] ''Invalid enum value''
   @ check (0 < storage_amount (storage (specs p)))
       [''specs'', ''storage'', ''amount''] ''Storage amount must be positive''
   @ check (storage_unit (storage (specs p)) \<in> set [''GB'', ''TB''])
       [''specs'', ''storage'', ''unit''] ''Invalid enum value''
   @ check (storage_type (storage (specs p)) \<in> set [''SSD'', ''NVMe'', ''HDD'', ''EBS''])
       [''specs'', ''storage'', ''type''] ''Invalid enum value''
   @ (case bandwidth_amount (bandwidth (specs p)) of
        None \<Rightarrow> []
      | Some a \<Rightarrow> check (0 \<le> a)
          [''specs'', ''bandwidth'', ''amount''] ''Bandwidth amount must be non-negative'')
   @ check (bandwidth_unit (bandwidth (specs p)) \<in> set [''GB'', ''TB''])
       [''specs'', ''bandwidth'', ''unit''] ''Invalid enum value''
   @ check (1 \<le> length (features p)) [''features''] ''At least one feature is required''
   @ check (1 \<le> length (locations p)) [''locations''] ''At least one location is required''
   @ check (0 \<le> percentage (uptime p))
       [''uptime'', ''percentage''] ''Number must be greater than or equal to 0''
   @ check (percentage (uptime p) \<le> 100)
       [''uptime'', ''percentage''] ''Uptime percentage must be between 0 and 100''
   @ check (1 \<le> length (support p)) [''support''] ''Support information is required''
   @ check (valid_url (website p)) [''website''] ''Website must be a valid URL''"

section \<open>DigitalOcean\<close>

record DOSize =
  do_slug :: string
  do_available :: bool
  do_memory :: rat
  do_vcpus :: rat
  do_disk :: rat
  do_transfer :: rat
  do_price_monthly :: rat
  do_regions :: "string list"
  do_description :: "string option"

record DORegion =
  dor_slug :: string
  dor_name :: string
  dor_available :: bool

record DOSizesResponse =
  do_sizes :: "DOSize list option"

record DORegionsResponse =
  do_region_list :: "DORegion list option"

definition do_tags :: "DOSize \<Rightarrow> string list" where
  "do_tags sz =
     [''cloud'', ''scalable'', ''developer-friendly'', ''popular'']
     @ (if do_price_monthly sz \<le> 10 then [''budget''] else [])
     @ (if do_vcpus sz \<ge> 4 then [''high-performance''] else [])
     @ (if do_memory sz \<ge> 8192 then [''high-memory''] else [])"

definition do_transform :: "DORegion list \<Rightarrow> DOSize \<Rightarrow> plan" where
  "do_transform regions sz =
     (let availableRegions =
            map dor_name
              (filter (\<lambda>region. dor_available region \<and> dor_slug region \<in> set (do_regions sz))
                 regions)
      in \<lparr> plan_id = ''digitalocean-'' @ do_slug sz,
           provider = ''DigitalOcean'',
           name = (if truthy (do_description sz) then the (do_description sz)
                   else number_to_string (do_memory sz) @ ''MB / ''
                        @ number_to_string (do_vcpus sz) @ '' vCPU''),
           description = None,
           price = \<lparr> monthly = Num (do_price_monthly sz), yearly = None, currency = ''USD'' \<rparr>,
           specs = \<lparr>
             cpu = \<lparr> cores = do_vcpus sz, cpu_type = ''vCPU'' \<rparr>,
             ram = \<lparr> ram_amount = (if do_memory sz \<ge> 1024 then do_memory sz / 1024
                                     else do_memory sz),
                     ram_unit = (if do_memory sz \<ge> 1024 then ''GB'' else ''MB'') \<rparr>,
             storage = \<lparr> storage_amount = do_disk sz, storage_unit = ''GB'',
                         storage_type = ''SSD'' \<rparr>,
             bandwidth = \<lparr> bandwidth_amount = Some (do_transfer sz), bandwidth_unit = ''TB'',
                           unlimited = False \<rparr> \<rparr>,
           features = [''SSD Storage'', ''IPv6'', ''Monitoring'', ''Firewalls'',
                       ''Private Networking'', ''Load Balancers'', ''Snapshots'', ''Backups''],
           locations = take 10 availableRegions,
           uptime = \<lparr> percentage = 9999 / 100, sla = False \<rparr>,
           support = ''24/7 Community & Ticket Support'',
           website = ''https://digitalocean.com'',
           featured = (do_slug sz \<in> set [''s-1vcpu-1gb'', ''s-2vcpu-2gb'']),
           tags = do_tags sz \<rparr>)"

definition do_keep :: "DOSize \<Rightarrow> bool" where
  "do_keep sz = (do_available sz \<and> do_memory sz \<ge> 512)"

text \<open>The body of the \<open>try\<close> block, after the two requests have been issued.\<close>

definition do_try ::
  "DOSizesResponse fetched \<Rightarrow> DORegionsResponse fetched \<Rightarrow> exn + plan list" where
  "do_try sizesFetch regionsFetch =
     and_then sizesFetch (\<lambda>sizesResponse.
     and_then regionsFetch (\<lambda>regionsResponse.
       if \<not> ok sizesResponse \<or> \<not> ok regionsResponse
       then Inl (Error ''Failed to fetch DigitalOcean data'')
       else
         and_then (json sizesResponse) (\<lambda>sizesData.
         and_then (json regionsResponse) (\<lambda>regionsData.
           let sizes = (case do_sizes sizesData of Some xs \<Rightarrow> xs | None \<Rightarrow> []);
               regions = (case do_region_list regionsData of Some xs \<Rightarrow> xs | None \<Rightarrow> [])
           in Inr (map (do_transform regions) (filter do_keep sizes))))))"

definition fetchDigitalOceanPlans ::
  "env \<Rightarrow> DOSizesResponse fetched \<Rightarrow> DORegionsResponse fetched
     \<Rightarrow> event list \<times> plan list promise" where
  "fetchDigitalOceanPlans env sizesFetch regionsFetch =
     (if \<not> truthy (env ''DIGITALOCEAN_API_KEY'')
      then ([ConsoleWarn ''DIGITALOCEAN_API_KEY not set, skipping DigitalOcean plans''], Inr [])
      else
        (case do_try sizesFetch regionsFetch of
           Inr plans \<Rightarrow>
             ([Fetch ''https://api.digitalocean.com/v2/sizes'',
               Fetch ''https://api.digitalocean.com/v2/regions''], Inr plans)
         | Inl error \<Rightarrow>
             ([Fetch ''https://api.digitalocean.com/v2/sizes'',
               Fetch ''https://api.digitalocean.com/v2/regions'',
               ConsoleError ''Failed to fetch DigitalOcean plans:'' error], Inr [])))"


section \<open>Linode\<close>

record LinodeType =
  ln_id :: string
  ln_label :: string
  ln_class :: string
  ln_vcpus :: rat
  ln_memory :: rat
  ln_disk :: rat
  ln_transfer :: rat
  ln_price_monthly :: rat

record LinodeRegion =
  lnr_status :: string
  lnr_label :: string

record LinodeTypesResponse =
  ln_types_data :: "LinodeType list option"

record LinodeRegionsResponse =
  ln_regions_data :: "LinodeRegion list option"

definition getClassFeatures :: "string \<Rightarrow> string list" where
  "getClassFeatures planClass =
     (let baseFeatures = [''SSD Storage'', ''IPv6'', ''Private Networking'', ''DDoS Protection'',
                          ''Monitoring'', ''Backup Service'', ''API Access'', ''Cloud Firewall'']
      in if planClass = ''nanode'' then baseFeatures @ [''Shared CPU'']
         else if planClass = ''standard''
           then baseFeatures @ [''Shared CPU'', ''Burstable Performance'']
         else if planClass = ''dedicated''
           then baseFeatures @ [''Dedicated CPU'', ''Sustained Performance'']
         else if planClass = ''highmem''
           then baseFeatures @ [''High Memory'', ''Optimized for Memory-Intensive Applications'']
         else if planClass = ''premium''
           then baseFeatures @ [''Premium Hardware'', ''Enhanced Performance'',
                                ''Advanced Networking'']
         else baseFeatures)"

definition getTypeName :: "string \<Rightarrow> string" where
  "getTypeName planClass =
     (if planClass = ''nanode'' then ''Nanode''
      else if planClass = ''standard'' then ''Standard''
      else if planClass = ''dedicated'' then ''Dedicated CPU''
      else if planClass = ''highmem'' then ''High Memory''
      else if planClass = ''premium'' then ''Premium''
      else (case planClass of [] \<Rightarrow> [] | c # cs \<Rightarrow> upper_char c # cs))"

definition linode_tags :: "LinodeType \<Rightarrow> string list" where
  "linode_tags ty =
     [''reliable'', ''developer-friendly'']
     @ (if ln_price_monthly ty \<le> 10 then [''budget''] else [])
     @ (if ln_class ty = ''dedicated'' then [''high-performance'', ''dedicated''] else [])
     @ (if ln_class ty = ''highmem'' then [''high-memory''] else [])
     @ (if ln_class ty = ''premium'' then [''premium'', ''enhanced''] else [])
     @ (if ln_class ty = ''nanode'' then [''entry-level''] else [])"

definition linode_transform :: "LinodeRegion list \<Rightarrow> LinodeType \<Rightarrow> plan" where
  "linode_transform regions ty =
     (let availableRegions =
            take 10 (map lnr_label (filter (\<lambda>region. lnr_status region = ''ok'') regions))
      in \<lparr> plan_id = ''linode-'' @ ln_id ty,
           provider = ''Linode'',
           name = getTypeName (ln_class ty) @ '' '' @ ln_label ty,
           description = None,
           price = \<lparr> monthly = Num (ln_price_monthly ty), yearly = None, currency = ''USD'' \<rparr>,
           specs = \<lparr>
             cpu = \<lparr> cores = ln_vcpus ty,
                     cpu_type = (if ln_class ty = ''dedicated'' then ''CPU'' else ''vCPU'') \<rparr>,
             ram = \<lparr> ram_amount = (if ln_memory ty \<ge> 1024 then ln_memory ty / 1024
                                     else ln_memory ty),
                     ram_unit = (if ln_memory ty \<ge> 1024 then ''GB'' else ''MB'') \<rparr>,
             storage = \<lparr> storage_amount = (if ln_disk ty \<ge> 1024 then ln_disk ty / 1024
                                             else ln_disk ty),
                         storage_unit = (if ln_disk ty \<ge> 1024 then ''GB'' else ''MB''),
                         storage_type = ''SSD'' \<rparr>,
             bandwidth = \<lparr> bandwidth_amount =
                             Some (if ln_transfer ty \<ge> 1024 then ln_transfer ty / 1024
                                   else ln_transfer ty),
                           bandwidth_unit = (if ln_transfer ty \<ge> 1024 then ''TB'' else ''GB''),
                           unlimited = False \<rparr> \<rparr>,
           features = getClassFeatures (ln_class ty),
           locations = availableRegions,
           uptime = \<lparr> percentage = 999 / 10, sla = True \<rparr>,
           support = ''24/7 Support'',
           website = ''https://linode.com'',
           featured = (ln_id ty \<in> set [''g6-nanode-1'', ''g6-standard-1'', ''g6-standard-2'']),
           tags = linode_tags ty \<rparr>)"

definition linode_keep :: "LinodeType \<Rightarrow> bool" where
  "linode_keep ty = (ln_class ty \<noteq> ''gpu'' \<and> ln_class ty \<noteq> ''accelerated'')"

definition linode_try ::
  "LinodeTypesResponse fetched \<Rightarrow> LinodeRegionsResponse fetched \<Rightarrow> exn + plan list" where
  "linode_try typesFetch regionsFetch =
     and_then typesFetch (\<lambda>typesResponse.
     and_then regionsFetch (\<lambda>regionsResponse.
       if \<not> ok typesResponse \<or> \<not> ok regionsResponse
       then Inl (Error ''Failed to fetch Linode data'')
       else
         and_then (json typesResponse) (\<lambda>typesData.
         and_then (json regionsResponse) (\<lambda>regionsData.
           let types = (case ln_types_data typesData of Some xs \<Rightarrow> xs | None \<Rightarrow> []);
               regions = (case ln_regions_data regionsData of Some xs \<Rightarrow> xs | None \<Rightarrow> [])
           in Inr (map (linode_transform regions) (filter linode_keep types))))))"

definition fetchLinodePlans ::
  "LinodeTypesResponse fetched \<Rightarrow> LinodeRegionsResponse fetched
     \<Rightarrow> event list \<times> plan list promise" where
  "fetchLinodePlans typesFetch regionsFetch =
     (case linode_try typesFetch regionsFetch of
        Inr plans \<Rightarrow>
          ([Fetch ''https://api.linode.com/v4/linode/types'',
            Fetch ''https://api.linode.com/v4/regions''], Inr plans)
      | Inl error \<Rightarrow>
          ([Fetch ''https://api.linode.com/v4/linode/types'',
            Fetch ''https://api.linode.com/v4/regions'',
            ConsoleError ''Failed to fetch Linode plans:'' error], Inr []))"

section \<open>Hetzner\<close>

text \<open>\<open>price_monthly.gross\<close> of one tier.\<close>

record HetznerPrice =
  price_monthly_gross :: string

record HetznerServerType =
  hz_name :: string
  hz_description :: "string option"
  hz_cores :: rat
  hz_memory :: rat
  hz_disk :: rat
  hz_deprecated :: bool
  hz_architecture :: string
  hz_cpu_type :: string
  hz_storage_type :: string
  hz_prices :: "HetznerPrice list"

record HetznerLocation =
  hzl_city :: string
  hzl_country :: string

record HetznerServerTypesResponse =
  hz_server_types :: "HetznerServerType list option"

record HetznerLocationsResponse =
  hz_locations :: "HetznerLocation list option"

text \<open>The callback of \<open>prices.reduce\<close>, and the reduce itself, which throws on \<open>[]\<close>.\<close>

definition cheaper :: "HetznerPrice \<Rightarrow> HetznerPrice \<Rightarrow> HetznerPrice" where
  "cheaper mn current =
     (let currentPrice = parseFloat (price_monthly_gross current);
          minPrice = parseFloat (price_monthly_gross mn)
      in if js_lt currentPrice minPrice then current else mn)"

definition cheapestPrice :: "HetznerPrice list \<Rightarrow> exn + HetznerPrice" where
  "cheapestPrice prices =
     (case prices of
        [] \<Rightarrow> Inl (TypeError ''Reduce of empty array with no initial value'')
      | p # ps \<Rightarrow> Inr (foldl cheaper p ps))"

definition hetzner_tags :: "number \<Rightarrow> HetznerServerType \<Rightarrow> string list" where
  "hetzner_tags monthlyPrice serverType =
     [''europe'', ''budget'', ''high-bandwidth'']
     @ (if js_le monthlyPrice (Num 5) then [''ultra-budget''] else [])
     @ (if hz_cores serverType \<ge> 4 then [''high-performance''] else [])
     @ (if hz_memory serverType \<ge> 16 then [''high-memory''] else [])
     @ (if hz_architecture serverType = ''arm64'' then [''arm'', ''energy-efficient''] else [])"

definition hetzner_transform :: "HetznerLocation list \<Rightarrow> HetznerServerType \<Rightarrow> exn + plan" where
  "hetzner_transform locs serverType =
     and_then (cheapestPrice (hz_prices serverType)) (\<lambda>cheapest.
       let monthlyPrice = parseFloat (price_monthly_gross cheapest)
       in Inr \<lparr> plan_id = ''hetzner-'' @ toLowerCase (hz_name serverType),
                 provider = ''Hetzner'',
                 name = hz_name serverType,
                 description = hz_description serverType,
                 price = \<lparr> monthly = monthlyPrice, yearly = None, currency = ''EUR'' \<rparr>,
                 specs = \<lparr>
                   cpu = \<lparr> cores = hz_cores serverType,
                           cpu_type = (if hz_cpu_type serverType = ''shared'' then ''vCPU''
                                       else ''CPU'') \<rparr>,
                   ram = \<lparr> ram_amount = hz_memory serverType, ram_unit = ''GB'' \<rparr>,
                   storage = \<lparr> storage_amount = hz_disk serverType, storage_unit = ''GB'',
                               storage_type = (if hz_storage_type serverType = ''local''
                                               then ''SSD'' else ''NVMe'') \<rparr>,
                   bandwidth = \<lparr> bandwidth_amount = Some 20, bandwidth_unit = ''TB'',
                                 unlimited = False \<rparr> \<rparr>,
                 features = [''SSD Storage'', ''IPv6'', ''Private Networking'', ''Snapshots'',
                             ''Backups'', ''Load Balancers'', ''Floating IPs'',
                             ''DDoS Protection''],
                 locations = map (\<lambda>loc. hzl_city loc @ '', '' @ hzl_country loc) locs,
                 uptime = \<lparr> percentage = 999 / 10, sla = False \<rparr>,
                 support = ''Business Hours Support'',
                 website = ''https://hetzner.com'',
                 featured = (toLowerCase (hz_name serverType) \<in> set [''cx11'', ''cx21'', ''cx31'']),
                 tags = hetzner_tags monthlyPrice serverType \<rparr>)"

definition hetzner_keep :: "env \<Rightarrow> HetznerServerType \<Rightarrow> bool" where
  "hetzner_keep env serverType =
     (\<not> hz_deprecated serverType
      \<and> (hz_architecture serverType = ''x86'' \<or> env ''HETZNER_INCLUDE_ARM'' = Some ''true''))"

definition hetzner_try ::
  "env \<Rightarrow> HetznerServerTypesResponse fetched \<Rightarrow> HetznerLocationsResponse fetched
     \<Rightarrow> exn + plan list" where
  "hetzner_try env serverTypesFetch locationsFetch =
     and_then serverTypesFetch (\<lambda>serverTypesResponse.
     and_then locationsFetch (\<lambda>locationsResponse.
       if \<not> ok serverTypesResponse \<or> \<not> ok locationsResponse
       then Inl (Error ''Failed to fetch Hetzner data'')
       else
         and_then (json serverTypesResponse) (\<lambda>serverTypesData.
         and_then (json locationsResponse) (\<lambda>locationsData.
           let serverTypes = (case hz_server_types serverTypesData of
                                Some xs \<Rightarrow> xs | None \<Rightarrow> []);
               locs = (case hz_locations locationsData of Some xs \<Rightarrow> xs | None \<Rightarrow> [])
           in map_throwing (hetzner_transform locs) (filter (hetzner_keep env) serverTypes)))))"

definition fetchHetznerPlans ::
  "env \<Rightarrow> HetznerServerTypesResponse fetched \<Rightarrow> HetznerLocationsResponse fetched
     \<Rightarrow> event list \<times> plan list promise" where
  "fetchHetznerPlans env serverTypesFetch locationsFetch =
     (if \<not> truthy (env ''HETZNER_API_KEY'')
      then ([ConsoleWarn ''HETZNER_API_KEY not set, skipping Hetzner plans''], Inr [])
      else
        (case hetzner_try env serverTypesFetch locationsFetch of
           Inr plans \<Rightarrow>
             ([Fetch ''https://api.hetzner.cloud/v1/server_types'',
               Fetch ''https://api.hetzner.cloud/v1/locations''], Inr plans)
         | Inl error \<Rightarrow>
             ([Fetch ''https://api.hetzner.cloud/v1/server_types'',
               Fetch ''https://api.hetzner.cloud/v1/locations'',
               ConsoleError ''Failed to fetch Hetzner plans:'' error], Inr [])))"


section \<open>Vultr\<close>

record VultrPlan =
  vu_id :: string
  vu_vcpu_count :: rat
  vu_ram :: rat
  vu_disk :: rat
  vu_bandwidth :: rat
  vu_monthly_cost :: rat
  vu_type :: string
  vu_locations :: "string list"

record VultrRegion =
  vur_id :: string
  vur_city :: string
  vur_country :: string
  vur_continent :: string
  vur_options :: "string list"

record VultrPlansResponse =
  vu_plans :: "VultrPlan list"

record VultrRegionsResponse =
  vu_regions :: "VultrRegion list"

text \<open>
  The \<open>Map\<close> filled by \<open>regionsData.regions.forEach\<close>: a later region with the same id
  replaces the earlier entry.
\<close>

definition regionMap :: "VultrRegion list \<Rightarrow> string \<Rightarrow> string option" where
  "regionMap regions =
     map_of (rev (map (\<lambda>region. (vur_id region, vur_city region @ '', '' @ vur_country region))
                    regions))"

definition vultr_features :: "VultrPlan \<Rightarrow> string list" where
  "vultr_features pl =
     (if vu_type pl = ''vc2'' then [''Cloud Compute'', ''DDoS Protection'', ''100% SSD Storage'']
      else if vu_type pl = ''vhf''
        then [''High Frequency'', ''3 GHz+ CPU'', ''NVMe Storage'', ''DDoS Protection'']
      else if vu_type pl = ''vhp''
        then [''High Performance'', ''Latest CPU'', ''NVMe Storage'', ''DDoS Protection'']
      else if vu_type pl = ''vdc''
        then [''Dedicated CPU'', ''100% Dedicated Resources'', ''NVMe Storage'']
      else [])
     @ [''Full Root Access'', ''IPv6 Support'']"

definition vultr_tags :: "VultrPlan \<Rightarrow> string list" where
  "vultr_tags pl =
     [''global'']
     @ (if vu_monthly_cost pl \<le> 6 then [''budget'', ''ultra-budget'']
        else if vu_monthly_cost pl \<le> 12 then [''budget''] else [])
     @ (if vu_type pl = ''vhf'' \<or> vu_type pl = ''vhp'' then [''high-performance''] else [])
     @ (if vu_type pl = ''vdc'' then [''dedicated'', ''high-performance''] else [])
     @ (if vu_ram pl / 1024 \<ge> 8 then [''high-memory''] else [])
     @ (if vu_bandwidth pl \<ge> 2048 then [''high-bandwidth''] else [])"

definition vultr_transform :: "(string \<Rightarrow> string option) \<Rightarrow> VultrPlan \<Rightarrow> plan" where
  "vultr_transform rmap pl =
     (let ramInGB = vu_ram pl / 1024;
          locs = map (\<lambda>locId. if truthy (rmap locId) then the (rmap locId) else locId)
                   (take 10 (vu_locations pl));
          storageType = (if vu_type pl = ''vhf'' \<or> vu_type pl = ''vhp'' \<or> vu_type pl = ''vdc''
                         then ''NVMe'' else ''SSD'');
          cpuType = (if vu_type pl = ''vdc'' then ''CPU'' else ''vCPU'')
      in \<lparr> plan_id = ''vultr-'' @ vu_id pl,
           provider = ''Vultr'',
           name = toUpperCase (vu_id pl),
           description = None,
           price = \<lparr> monthly = Num (vu_monthly_cost pl), yearly = None, currency = ''USD'' \<rparr>,
           specs = \<lparr>
             cpu = \<lparr> cores = vu_vcpu_count pl, cpu_type = cpuType \<rparr>,
             ram = \<lparr> ram_amount = ramInGB, ram_unit = ''GB'' \<rparr>,
             storage = \<lparr> storage_amount = vu_disk pl, storage_unit = ''GB'',
                         storage_type = storageType \<rparr>,
             bandwidth = \<lparr> bandwidth_amount = Some (vu_bandwidth pl / 1024),
                           bandwidth_unit = ''TB'', unlimited = False \<rparr> \<rparr>,
           features = vultr_features pl,
           locations = locs,
           uptime = \<lparr> percentage = 9999 / 100, sla = True \<rparr>,
           support = ''24/7 Support'',
           website = ''https://www.vultr.com'',
           featured = (vu_id pl \<in> set [''vc2-1c-1gb'', ''vc2-1c-2gb'', ''vc2-2c-4gb'']),
           tags = vultr_tags pl \<rparr>)"

definition vultr_keep :: "VultrPlan \<Rightarrow> bool" where
  "vultr_keep pl = (vu_type pl \<in> set [''vc2'', ''vhf'', ''vhp'', ''vdc''])"

definition vultr_try ::
  "VultrPlansResponse fetched \<Rightarrow> VultrRegionsResponse fetched \<Rightarrow> exn + plan list" where
  "vultr_try plansFetch regionsFetch =
     and_then plansFetch (\<lambda>plansResponse.
     and_then regionsFetch (\<lambda>regionsResponse.
       if \<not> ok plansResponse
       then Inl (Error (''Failed to fetch Vultr plans: ''
                        @ string_of_nat (status plansResponse) @ '' ''
                        @ statusText plansResponse))
       else if \<not> ok regionsResponse
       then Inl (Error (''Failed to fetch Vultr regions: ''
                        @ string_of_nat (status regionsResponse) @ '' ''
                        @ statusText regionsResponse))
       else
         and_then (json plansResponse) (\<lambda>plansData.
         and_then (json regionsResponse) (\<lambda>regionsData.
           Inr (map (vultr_transform (regionMap (vu_regions regionsData)))
                  (filter vultr_keep (vu_plans plansData)))))))"

definition fetchVultrPlans ::
  "env \<Rightarrow> VultrPlansResponse fetched \<Rightarrow> VultrRegionsResponse fetched
     \<Rightarrow> event list \<times> plan list promise" where
  "fetchVultrPlans env plansFetch regionsFetch =
     (if \<not> truthy (env ''VULTR_API_KEY'')
      then ([ConsoleWarn (warning_sign @ ''  VULTR_API_KEY not set, skipping Vultr plans'')],
            Inr [])
      else
        (case vultr_try plansFetch regionsFetch of
           Inr transformedPlans \<Rightarrow>
             ([Fetch ''https://api.vultr.com/v2/plans'',
               Fetch ''https://api.vultr.com/v2/regions'',
               ConsoleLog (check_mark @ '' Fetched '' @ string_of_nat (length transformedPlans)
                           @ '' plans from Vultr'')],
              Inr transformedPlans)
         | Inl error \<Rightarrow>
             ([Fetch ''https://api.vultr.com/v2/plans'',
               Fetch ''https://api.vultr.com/v2/regions'',
               ConsoleError (cross_mark @ '' Failed to fetch Vultr plans:'') error], Inr [])))"

section \<open>UpCloud\<close>

record UpCloudPlan =
  uc_core_number :: rat
  uc_memory_amount :: rat
  uc_name :: string
  uc_public_traffic_out :: rat
  uc_storage_size :: rat
  uc_storage_tier :: string

text \<open>\<open>plans.plan\<close> of the plan response and \<open>zones.zone\<close> of the zone response.\<close>

record UpCloudPlansResponse =
  uc_plans_plan :: "UpCloudPlan list"

record UpCloudZone =
  ucz_id :: string
  ucz_description :: string

record UpCloudZonesResponse =
  uc_zones_zone :: "UpCloudZone list"

text \<open>
  \<open>prices.zone\<close>: an object from zone name to an object from item name to its hourly
  \<open>price\<close> string, as association lists in the order \<open>Object.keys\<close> enumerates them.
\<close>

record UpCloudPricing =
  uc_prices_zone :: "(string \<times> (string \<times> string) list) list"

definition planPricing :: "UpCloudPricing \<Rightarrow> UpCloudPlan \<Rightarrow> string option" where
  "planPricing pricingData pl =
     (case map fst (uc_prices_zone pricingData) of
        [] \<Rightarrow> None
      | firstZone # _ \<Rightarrow>
          (case map_of (uc_prices_zone pricingData) firstZone of
             None \<Rightarrow> None
           | Some items \<Rightarrow> map_of items (''server_plan_'' @ uc_name pl)))"

definition upcloud_monthlyPrice :: "UpCloudPricing \<Rightarrow> UpCloudPlan \<Rightarrow> number" where
  "upcloud_monthlyPrice pricingData pl =
     (let hourlyPrice = (case planPricing pricingData pl of
                           Some pr \<Rightarrow> parseFloat pr
                         | None \<Rightarrow> Num 0)
      in js_div (Math_round (js_mul (js_mul hourlyPrice 730) 100)) 100)"

definition upcloud_features :: "UpCloudPlan \<Rightarrow> string list" where
  "upcloud_features pl =
     [''MaxIOPS Storage'', ''Full Root Access'', ''DDoS Protection'', ''100% Uptime SLA'',
      ''Private Networking'', ''Firewall'', ''IPv6 Support'']
     @ (if uc_storage_tier pl = ''maxiops'' then [''NVMe Storage''] else [])"

definition upcloud_tags :: "number \<Rightarrow> UpCloudPlan \<Rightarrow> string list" where
  "upcloud_tags monthlyPrice pl =
     [''europe'', ''high-performance'']
     @ (if js_le monthlyPrice (Num 6) then [''budget'', ''ultra-budget'']
        else if js_le monthlyPrice (Num 12) then [''budget''] else [])
     @ (if uc_memory_amount pl / 1024 \<ge> 8 then [''high-memory''] else [])
     @ (if uc_public_traffic_out pl \<ge> 2048 then [''high-bandwidth''] else [])
     @ (if uc_storage_tier pl = ''maxiops'' then [''nvme-storage''] else [])"

definition upcloud_transform :: "UpCloudPricing \<Rightarrow> string list \<Rightarrow> UpCloudPlan \<Rightarrow> plan" where
  "upcloud_transform pricingData zones pl =
     (let ramInGB = uc_memory_amount pl / 1024;
          monthlyPrice = upcloud_monthlyPrice pricingData pl
      in \<lparr> plan_id = ''upcloud-'' @ toLowerCase (uc_name pl),
           provider = ''UpCloud'',
           name = uc_name pl,
           description = None,
           price = \<lparr> monthly = monthlyPrice, yearly = None, currency = ''USD'' \<rparr>,
           specs = \<lparr>
             cpu = \<lparr> cores = uc_core_number pl, cpu_type = ''vCPU'' \<rparr>,
             ram = \<lparr> ram_amount = ramInGB, ram_unit = ''GB'' \<rparr>,
             storage = \<lparr> storage_amount = uc_storage_size pl, storage_unit = ''GB'',
                         storage_type = (if uc_storage_tier pl = ''maxiops'' then ''NVMe''
                                         else ''SSD'') \<rparr>,
             bandwidth = \<lparr> bandwidth_amount = Some (uc_public_traffic_out pl / 1024),
                           bandwidth_unit = ''TB'', unlimited = False \<rparr> \<rparr>,
           features = upcloud_features pl,
           locations = take 10 zones,
           uptime = \<lparr> percentage = 100, sla = True \<rparr>,
           support = ''24/7 Support'',
           website = ''https://upcloud.com'',
           featured = (uc_name pl \<in> set [''1xCPU-2GB'', ''2xCPU-4GB'', ''4xCPU-8GB'']),
           tags = upcloud_tags monthlyPrice pl \<rparr>)"

definition upcloud_try ::
  "UpCloudPlansResponse fetched \<Rightarrow> UpCloudPricing fetched \<Rightarrow> UpCloudZonesResponse fetched
     \<Rightarrow> exn + plan list" where
  "upcloud_try plansFetch pricingFetch zonesFetch =
     and_then plansFetch (\<lambda>plansResponse.
     and_then pricingFetch (\<lambda>pricingResponse.
     and_then zonesFetch (\<lambda>zonesResponse.
       if \<not> ok plansResponse
       then Inl (Error (''Failed to fetch UpCloud plans: ''
                        @ string_of_nat (status plansResponse) @ '' ''
                        @ statusText plansResponse))
       else if \<not> ok pricingResponse
       then Inl (Error (''Failed to fetch UpCloud pricing: ''
                        @ string_of_nat (status pricingResponse) @ '' ''
                        @ statusText pricingResponse))
       else if \<not> ok zonesResponse
       then Inl (Error (''Failed to fetch UpCloud zones: ''
                        @ string_of_nat (status zonesResponse) @ '' ''
                        @ statusText zonesResponse))
       else
         and_then (json plansResponse) (\<lambda>plansData.
         and_then (json pricingResponse) (\<lambda>pricingData.
         and_then (json zonesResponse) (\<lambda>zonesData.
           let zones = map ucz_description (uc_zones_zone zonesData)
           in Inr (map (upcloud_transform pricingData zones) (uc_plans_plan plansData))))))))"

definition fetchUpCloudPlans ::
  "env \<Rightarrow> UpCloudPlansResponse fetched \<Rightarrow> UpCloudPricing fetched
     \<Rightarrow> UpCloudZonesResponse fetched \<Rightarrow> event list \<times> plan list promise" where
  "fetchUpCloudPlans env plansFetch pricingFetch zonesFetch =
     (if \<not> truthy (env ''UPCLOUD_USERNAME'') \<or> \<not> truthy (env ''UPCLOUD_PASSWORD'')
      then ([ConsoleWarn (warning_sign
               @ ''  UPCLOUD_USERNAME or UPCLOUD_PASSWORD not set, skipping UpCloud plans'')],
            Inr [])
      else
        (case upcloud_try plansFetch pricingFetch zonesFetch of
           Inr transformedPlans \<Rightarrow>
             ([Fetch ''https://api.upcloud.com/1.3/plan'',
               Fetch ''https://api.upcloud.com/1.3/price'',
               Fetch ''https://api.upcloud.com/1.3/zone'',
               ConsoleLog (check_mark @ '' Fetched '' @ string_of_nat (length transformedPlans)
                           @ '' plans from UpCloud'')],
              Inr transformedPlans)
         | Inl error \<Rightarrow>
             ([Fetch ''https://api.upcloud.com/1.3/plan'',
               Fetch ''https://api.upcloud.com/1.3/price'',
               Fetch ''https://api.upcloud.com/1.3/zone'',
               ConsoleError (cross_mark @ '' Failed to fetch UpCloud plans:'') error], Inr [])))"

section \<open>Scaleway\<close>

text \<open>
  The fields of a server type that the loader reads; \<open>volumes_constraint.max_size\<close>
  is \<open>sw_max_size\<close>. \<open>servers\<close> is an object keyed by type name, here the list that
  \<open>Object.entries\<close> returns.
\<close>

record ScalewayServerType =
  sw_ncpus :: rat
  sw_ram :: rat
  sw_max_size :: rat
  sw_baremetal :: "bool option"
  sw_gpu :: "rat option"

record ScalewayServersResponse =
  sw_servers :: "(string \<times> ScalewayServerType) list"

definition scaleway_monthlyPrice :: "ScalewayServerType \<Rightarrow> rat" where
  "scaleway_monthlyPrice server =
     (let ramInGB = sw_ram server / (1024 * 1024 * 1024);
          basePrice = sw_ncpus server * (35 / 10) + ramInGB * (25 / 10)
      in round_rat (basePrice * 100) / 100)"

definition scaleway_storageType :: "string \<Rightarrow> string" where
  "scaleway_storageType nm =
     (if str_includes nm ''GP1'' \<or> str_includes nm ''PRO'' then ''NVMe'' else ''SSD'')"

definition scaleway_features :: "string \<Rightarrow> string list" where
  "scaleway_features nm =
     [''Full Root Access'', ''Fast Local Storage'', ''Private Networks'', ''Security Groups'',
      ''IPv6 Support'', ''Block Storage Compatible'']
     @ (if scaleway_storageType nm = ''NVMe'' then [''NVMe Storage''] else [])"

definition scaleway_tags :: "string \<Rightarrow> ScalewayServerType \<Rightarrow> string list" where
  "scaleway_tags nm server =
     [''europe'']
     @ (if scaleway_monthlyPrice server \<le> 6 then [''budget'', ''ultra-budget'']
        else if scaleway_monthlyPrice server \<le> 12 then [''budget''] else [])
     @ (if str_includes nm ''DEV1'' \<or> str_includes nm ''PLAY2'' then [''development''] else [])
     @ (if str_includes nm ''GP1'' \<or> str_includes nm ''PRO'' then [''high-performance''] else [])
     @ (if sw_ram server / (1024 * 1024 * 1024) \<ge> 8 then [''high-memory''] else [])"

definition scaleway_zones :: "string list" where
  "scaleway_zones = [''Paris, France'', ''Amsterdam, Netherlands'', ''Warsaw, Poland'']"

definition scaleway_transform :: "string \<times> ScalewayServerType \<Rightarrow> plan" where
  "scaleway_transform entry =
     (let nm = fst entry; server = snd entry;
          ramInGB = sw_ram server / (1024 * 1024 * 1024);
          storageGB = sw_max_size server / (1024 * 1024 * 1024)
      in \<lparr> plan_id = ''scaleway-'' @ toLowerCase nm,
           provider = ''Scaleway'',
           name = nm,
           description = None,
           price = \<lparr> monthly = Num (scaleway_monthlyPrice server), yearly = None,
                     currency = ''EUR'' \<rparr>,
           specs = \<lparr>
             cpu = \<lparr> cores = sw_ncpus server, cpu_type = ''vCPU'' \<rparr>,
             ram = \<lparr> ram_amount = ramInGB, ram_unit = ''GB'' \<rparr>,
             storage = \<lparr> storage_amount = round_rat storageGB, storage_unit = ''GB'',
                         storage_type = scaleway_storageType nm \<rparr>,
             bandwidth = \<lparr> bandwidth_amount = Some 100, bandwidth_unit = ''TB'',
                           unlimited = True \<rparr> \<rparr>,
           features = scaleway_features nm,
           locations = take 10 scaleway_zones,
           uptime = \<lparr> percentage = 999 / 10, sla = True \<rparr>,
           support = ''24/7 Support'',
           website = ''https://www.scaleway.com'',
           featured = (nm \<in> set [''DEV1-S'', ''DEV1-M'', ''GP1-S'']),
           tags = scaleway_tags nm server \<rparr>)"

definition scaleway_keep :: "string \<times> ScalewayServerType \<Rightarrow> bool" where
  "scaleway_keep entry =
     (let server = snd entry
      in sw_baremetal server \<noteq> Some True \<and> (sw_gpu server = None \<or> sw_gpu server = Some 0))"

definition scaleway_try :: "ScalewayServersResponse fetched \<Rightarrow> exn + plan list" where
  "scaleway_try serversFetch =
     and_then serversFetch (\<lambda>serversResponse.
       if \<not> ok serversResponse
       then Inl (Error (''Failed to fetch Scaleway servers: ''
                        @ string_of_nat (status serversResponse) @ '' ''
                        @ statusText serversResponse))
       else
         and_then (json serversResponse) (\<lambda>serversData.
           Inr (map scaleway_transform (filter scaleway_keep (sw_servers serversData)))))"

definition fetchScalewayPlans ::
  "env \<Rightarrow> ScalewayServersResponse fetched \<Rightarrow> event list \<times> plan list promise" where
  "fetchScalewayPlans env serversFetch =
     (if \<not> truthy (env ''SCALEWAY_API_KEY'')
      then ([ConsoleWarn (warning_sign
               @ ''  SCALEWAY_API_KEY not set, skipping Scaleway plans'')], Inr [])
      else
        (case scaleway_try serversFetch of
           Inr transformedPlans \<Rightarrow>
             ([Fetch ''https://api.scaleway.com/instance/v1/zones/fr-par-1/products/servers'',
               ConsoleLog (check_mark @ '' Fetched '' @ string_of_nat (length transformedPlans)
                           @ '' plans from Scaleway'')],
              Inr transformedPlans)
         | Inl error \<Rightarrow>
             ([Fetch ''https://api.scaleway.com/instance/v1/zones/fr-par-1/products/servers'',
               ConsoleError (cross_mark @ '' Failed to fetch Scaleway plans:'') error],
              Inr [])))"


section \<open>The collection loader\<close>

text \<open>
  \<open>vpsPlans.loader\<close> awaits \<open>Promise.all\<close> of the six loaders and concatenates their
  arrays in that order. \<open>Promise.all\<close> rejects as soon as one member rejects, which the
  destructuring \<open>await\<close> then rethrows out of the loader. The six loaders run
  interleaved; their events are listed here in registration order.
\<close>

type_synonym adapter_run = "event list \<times> plan list promise"

definition loader_of ::
  "adapter_run \<Rightarrow> adapter_run \<Rightarrow> adapter_run \<Rightarrow> adapter_run \<Rightarrow> adapter_run \<Rightarrow> adapter_run
     \<Rightarrow> event list \<times> plan list promise" where
  "loader_of digitalOcean hetzner linode vultr upCloud scaleway =
     (let started = [ConsoleLog (rocket @ '' Fetching VPS plans from providers...'')]
                    @ fst digitalOcean @ fst hetzner @ fst linode
                    @ fst vultr @ fst upCloud @ fst scaleway;
          settled =
            and_then (snd digitalOcean) (\<lambda>digitalOceanPlans.
            and_then (snd hetzner) (\<lambda>hetznerPlans.
            and_then (snd linode) (\<lambda>linodePlans.
            and_then (snd vultr) (\<lambda>vultrPlans.
            and_then (snd upCloud) (\<lambda>upCloudPlans.
            and_then (snd scaleway) (\<lambda>scalewayPlans.
              let allPlans = digitalOceanPlans @ hetznerPlans @ linodePlans
                             @ vultrPlans @ upCloudPlans @ scalewayPlans
              in Inr ([ConsoleLog (check_mark @ '' Fetched '' @ string_of_nat (length allPlans)
                                   @ '' VPS plans total''),
                       ConsoleLog (''   - DigitalOcean: ''
                                   @ string_of_nat (length digitalOceanPlans) @ '' plans''),
                       ConsoleLog (''   - Hetzner: ''
                                   @ string_of_nat (length hetznerPlans) @ '' plans''),
                       ConsoleLog (''   - Linode: ''
                                   @ string_of_nat (length linodePlans) @ '' plans''),
                       ConsoleLog (''   - Vultr: ''
                                   @ string_of_nat (length vultrPlans) @ '' plans''),
                       ConsoleLog (''   - UpCloud: ''
                                   @ string_of_nat (length upCloudPlans) @ '' plans''),
                       ConsoleLog (''   - Scaleway: ''
                                   @ string_of_nat (length scalewayPlans) @ '' plans'')],
                      allPlans)))))))
      in case settled of
           Inl error \<Rightarrow> (started, Inl error)
         | Inr (summary, allPlans) \<Rightarrow> (started @ summary, Inr allPlans))"

text \<open>What the twelve requests of one run return.\<close>

record world =
  w_do_sizes :: "DOSizesResponse fetched"
  w_do_regions :: "DORegionsResponse fetched"
  w_hz_server_types :: "HetznerServerTypesResponse fetched"
  w_hz_locations :: "HetznerLocationsResponse fetched"
  w_ln_types :: "LinodeTypesResponse fetched"
  w_ln_regions :: "LinodeRegionsResponse fetched"
  w_vu_plans :: "VultrPlansResponse fetched"
  w_vu_regions :: "VultrRegionsResponse fetched"
  w_uc_plans :: "UpCloudPlansResponse fetched"
  w_uc_prices :: "UpCloudPricing fetched"
  w_uc_zones :: "UpCloudZonesResponse fetched"
  w_sw_servers :: "ScalewayServersResponse fetched"

definition vpsPlans_loader :: "env \<Rightarrow> world \<Rightarrow> event list \<times> plan list promise" where
  "vpsPlans_loader env w =
     loader_of
       (fetchDigitalOceanPlans env (w_do_sizes w) (w_do_regions w))
       (fetchHetznerPlans env (w_hz_server_types w) (w_hz_locations w))
       (fetchLinodePlans (w_ln_types w) (w_ln_regions w))
       (fetchVultrPlans env (w_vu_plans w) (w_vu_regions w))
       (fetchUpCloudPlans env (w_uc_plans w) (w_uc_prices w) (w_uc_zones w))
       (fetchScalewayPlans env (w_sw_servers w))"

section \<open>Vocabulary of the properties\<close>

text \<open>A successful HTTP exchange with body \<open>d\<close>.\<close>

definition ok_json :: "'a \<Rightarrow> 'a fetched" where
  "ok_json d = Inr (Response True 200 ''OK'' (Inr d))"

text \<open>
  A request is unsuccessful when the fetch rejects, when the status is not a success,
  or when the body does not parse.
\<close>

definition unsuccessful :: "'a fetched \<Rightarrow> bool" where
  "unsuccessful f = (case f of Inl e \<Rightarrow> True | Inr r \<Rightarrow> \<not> ok r \<or> isl (json r))"

text \<open>
  A contained failure: the promise resolves to the empty array and the console shows
  exactly one error.
\<close>

definition contained_failure :: "adapter_run \<Rightarrow> bool" where
  "contained_failure run = (snd run = Inr [] \<and> length (filter is_error (fst run)) = 1)"

definition resolves :: "adapter_run \<Rightarrow> bool" where
  "resolves run = (\<not> isl (snd run))"

definition plans_of :: "adapter_run \<Rightarrow> plan list" where
  "plans_of run = (case snd run of Inr plans \<Rightarrow> plans | Inl e \<Rightarrow> [])"

text \<open>
  A skipped provider: the promise resolves to the empty array, no request is issued,
  and the console shows exactly one warning, whose text contains \<open>var\<close>.
\<close>

definition skipped_with_warning :: "string \<Rightarrow> adapter_run \<Rightarrow> bool" where
  "skipped_with_warning var run =
     (snd run = Inr [] \<and> filter is_fetch (fst run) = []
      \<and> (case filter is_warning (fst run) of
            [ConsoleWarn msg] \<Rightarrow> str_includes msg var
          | _ \<Rightarrow> False))"

text \<open>The parsed body of a successful exchange, and the raw items listed in it.\<close>

definition body_of :: "'a fetched \<Rightarrow> 'a option" where
  "body_of f =
     (case f of
        Inl e \<Rightarrow> None
      | Inr r \<Rightarrow> (if ok r then (case json r of Inl e \<Rightarrow> None | Inr d \<Rightarrow> Some d) else None))"

definition listed :: "('a \<Rightarrow> 'b list) \<Rightarrow> 'a fetched \<Rightarrow> 'b list" where
  "listed items f = (case body_of f of None \<Rightarrow> [] | Some d \<Rightarrow> items d)"

definition or_empty :: "'a list option \<Rightarrow> 'a list" where
  "or_empty xs = (case xs of Some ys \<Rightarrow> ys | None \<Rightarrow> [])"

text \<open>
  The numeric value of a Hetzner price tier, and whether its \<open>gross\<close> string is
  numeric at all.
\<close>

definition tier_value :: "HetznerPrice \<Rightarrow> rat" where
  "tier_value q = (case parseFloat (price_monthly_gross q) of Num x \<Rightarrow> x | NaN \<Rightarrow> 0)"

definition numeric_tier :: "HetznerPrice \<Rightarrow> bool" where
  "numeric_tier q = (parseFloat (price_monthly_gross q) \<noteq> NaN)"

section \<open>Example inputs\<close>

definition env_all :: env where
  "env_all = map_of [(''DIGITALOCEAN_API_KEY'', ''do-key''), (''HETZNER_API_KEY'', ''hz-key''),
                     (''VULTR_API_KEY'', ''vu-key''), (''UPCLOUD_USERNAME'', ''user''),
                     (''UPCLOUD_PASSWORD'', ''secret''), (''SCALEWAY_API_KEY'', ''sw-key'')]"

definition env_none :: env where
  "env_none = (\<lambda>k. None)"

definition size_1gb :: DOSize where
  "size_1gb = \<lparr> do_slug = ''s-1vcpu-1gb'', do_available = True, do_memory = 1024,
                do_vcpus = 1, do_disk = 51200, do_transfer = 2000, do_price_monthly = 6,
                do_regions = [''nyc1''], do_description = Some ''Basic'' \<rparr>"

definition region_nyc1 :: DORegion where
  "region_nyc1 = \<lparr> dor_slug = ''nyc1'', dor_name = ''New York 1'', dor_available = True \<rparr>"

definition server_error :: "'a fetched" where
  "server_error = Inr (Response False 500 ''Internal Server Error''
                         (Inl (SyntaxError ''Unexpected end of JSON input'')))"

definition falkenstein :: HetznerLocation where
  "falkenstein = \<lparr> hzl_city = ''Falkenstein'', hzl_country = ''DE'' \<rparr>"

definition cx11 :: HetznerServerType where
  "cx11 = \<lparr> hz_name = ''cx11'', hz_description = Some ''CX11'', hz_cores = 1, hz_memory = 2,
            hz_disk = 20, hz_deprecated = False, hz_architecture = ''x86'',
            hz_cpu_type = ''shared'', hz_storage_type = ''local'',
            hz_prices = [\<lparr> price_monthly_gross = ''5.00'' \<rparr>,
                         \<lparr> price_monthly_gross = ''4.15'' \<rparr>,
                         \<lparr> price_monthly_gross = ''4.50'' \<rparr>] \<rparr>"

definition eleven_locations :: "HetznerLocation list" where
  "eleven_locations =
     map (\<lambda>city. \<lparr> hzl_city = city, hzl_country = ''DE'' \<rparr>)
       [''Falkenstein'', ''Nuremberg'', ''Helsinki'', ''Ashburn'', ''Hillsboro'', ''Singapore'',
        ''Berlin'', ''Hamburg'', ''Munich'', ''Cologne'', ''Frankfurt'']"

text \<open>A loader whose own error handling is bypassed, and one with nothing to report.\<close>

definition rejecting_run :: adapter_run where
  "rejecting_run = ([], Inl (TypeError ''Cannot read properties of undefined''))"

definition idle_run :: adapter_run where
  "idle_run = ([], Inr [])"

definition digitalocean_run :: adapter_run where
  "digitalocean_run =
     fetchDigitalOceanPlans env_all (ok_json \<lparr> do_sizes = Some [size_1gb] \<rparr>)
       (ok_json \<lparr> do_region_list = Some [region_nyc1] \<rparr>)"

definition upcloud_1x1 :: UpCloudPlan where
  "upcloud_1x1 = \<lparr> uc_core_number = 1, uc_memory_amount = 1024, uc_name = ''1xCPU-1GB'',
                   uc_public_traffic_out = 1024, uc_storage_size = 25,
                   uc_storage_tier = ''maxiops'' \<rparr>"

definition upcloud_2x4 :: UpCloudPlan where
  "upcloud_2x4 = \<lparr> uc_core_number = 2, uc_memory_amount = 4096, uc_name = ''2xCPU-4GB'',
                   uc_public_traffic_out = 4096, uc_storage_size = 80,
                   uc_storage_tier = ''maxiops'' \<rparr>"

definition upcloud_prices :: UpCloudPricing where
  "upcloud_prices =
     \<lparr> uc_prices_zone = [(''de-fra1'', [(''server_plan_2xCPU-4GB'', ''0.0357'')]),
                         (''fi-hel1'', [(''server_plan_1xCPU-1GB'', ''0.0104'')])] \<rparr>"

definition helsinki :: UpCloudZone where
  "helsinki = \<lparr> ucz_id = ''fi-hel1'', ucz_description = ''Helsinki #1'' \<rparr>"

definition vultr_512 :: VultrPlan where
  "vultr_512 = \<lparr> vu_id = ''vc2-1c-0.5gb'', vu_vcpu_count = 1, vu_ram = 512, vu_disk = 10,
                 vu_bandwidth = 512, vu_monthly_cost = 5 / 2, vu_type = ''vc2'',
                 vu_locations = [''ewr''] \<rparr>"

definition vultr_ewr :: VultrRegion where
  "vultr_ewr = \<lparr> vur_id = ''ewr'', vur_city = ''New Jersey'', vur_country = ''US'',
                 vur_continent = ''North America'', vur_options = [] \<rparr>"

definition hetzner_run :: adapter_run where
  "hetzner_run =
     fetchHetznerPlans env_all (ok_json \<lparr> hz_server_types = Some [cx11] \<rparr>)
       (ok_json \<lparr> hz_locations = Some [falkenstein] \<rparr>)"

definition nanode :: LinodeType where
  "nanode = \<lparr> ln_id = ''g6-nanode-1'', ln_label = ''Nanode 1GB'', ln_class = ''nanode'',
              ln_vcpus = 1, ln_memory = 1024, ln_disk = 25600, ln_transfer = 1000,
              ln_price_monthly = 5 \<rparr>"

definition newark :: LinodeRegion where
  "newark = \<lparr> lnr_status = ''ok'', lnr_label = ''Newark, NJ'' \<rparr>"

definition dev1_s :: "string \<times> ScalewayServerType" where
  "dev1_s = (''DEV1-S'', \<lparr> sw_ncpus = 2, sw_ram = 2147483648, sw_max_size = 21474836480,
                           sw_baremetal = Some False, sw_gpu = Some 0 \<rparr>)"

text \<open>
  Responses in which Hetzner lists two server types whose names differ in case only;
  the other providers fail.
\<close>

definition case_world :: world where
  "case_world =
     \<lparr> w_do_sizes = server_error, w_do_regions = server_error,
       w_hz_server_types = ok_json \<lparr> hz_server_types = Some [cx11, cx11\<lparr> hz_name := ''CX11'' \<rparr>] \<rparr>,
       w_hz_locations = ok_json \<lparr> hz_locations = Some [falkenstein] \<rparr>,
       w_ln_types = server_error, w_ln_regions = server_error,
       w_vu_plans = server_error, w_vu_regions = server_error,
       w_uc_plans = server_error, w_uc_prices = server_error, w_uc_zones = server_error,
       w_sw_servers = server_error \<rparr>"

text \<open>Responses in which every provider lists one plan.\<close>

definition small_world :: world where
  "small_world =
     \<lparr> w_do_sizes = ok_json \<lparr> do_sizes = Some [size_1gb] \<rparr>,
       w_do_regions = ok_json \<lparr> do_region_list = Some [region_nyc1] \<rparr>,
       w_hz_server_types = ok_json \<lparr> hz_server_types = Some [cx11] \<rparr>,
       w_hz_locations = ok_json \<lparr> hz_locations = Some [falkenstein] \<rparr>,
       w_ln_types = ok_json \<lparr> ln_types_data = Some [nanode] \<rparr>,
       w_ln_regions = ok_json \<lparr> ln_regions_data = Some [newark] \<rparr>,
       w_vu_plans = ok_json \<lparr> vu_plans = [vultr_512] \<rparr>,
       w_vu_regions = ok_json \<lparr> vu_regions = [vultr_ewr] \<rparr>,
       w_uc_plans = ok_json \<lparr> uc_plans_plan = [upcloud_2x4] \<rparr>,
       w_uc_prices = ok_json upcloud_prices,
       w_uc_zones = ok_json \<lparr> uc_zones_zone = [helsinki] \<rparr>,
       w_sw_servers = ok_json \<lparr> sw_servers = [dev1_s] \<rparr> \<rparr>"








text \<open>Hetzner server types with a price tier that is not a number.\<close>

definition cx11_first_unpriced :: HetznerServerType where
  "cx11_first_unpriced =
     cx11 \<lparr> hz_prices := [\<lparr> price_monthly_gross = ''n/a'' \<rparr>,
                           \<lparr> price_monthly_gross = ''4.15'' \<rparr>] \<rparr>"

definition cx11_later_unpriced :: HetznerServerType where
  "cx11_later_unpriced =
     cx11 \<lparr> hz_prices := [\<lparr> price_monthly_gross = ''5.00'' \<rparr>,
                           \<lparr> price_monthly_gross = ''n/a'' \<rparr>,
                           \<lparr> price_monthly_gross = ''4.15'' \<rparr>] \<rparr>"

section \<open>Basic facts\<close>

lemma and_then_Inr_iff: "and_then x f = Inr y \<longleftrightarrow> (\<exists>v. x = Inr v \<and> f v = Inr y)"
  by (cases x) auto

lemma and_then_isl_iff: "isl (and_then x f) \<longleftrightarrow> isl x \<or> (\<exists>v. x = Inr v \<and> isl (f v))"
  by (cases x) auto

lemma ex_Inr_iff: "(\<exists>v. x = Inr v) \<longleftrightarrow> \<not> isl x"
  by (cases x) auto

lemma isl_iff_no_Inr: "isl x \<longleftrightarrow> (\<forall>v. x \<noteq> Inr v)"
  by (cases x) auto

lemma unsuccessful_iff: "unsuccessful f \<longleftrightarrow> body_of f = None"
  by (auto simp: unsuccessful_def body_of_def split: sum.splits)

lemma body_of_ok_json: "body_of (ok_json d) = Some d"
  by (simp add: body_of_def ok_json_def)

lemma listed_ok_json: "listed items (ok_json d) = items d"
  by (simp add: listed_def body_of_ok_json)

lemma unsuccessful_server_error: "unsuccessful server_error"
  by (simp add: unsuccessful_def server_error_def)

lemma listed_server_error: "listed items server_error = []"
  by (simp add: listed_def body_of_def server_error_def)

lemma round_rat_0: "round_rat 0 = 0"
  unfolding round_rat_def by (simp add: floor_eq_iff)

lemma map_throwing_Inr:
  "map_throwing f xs = Inr ys \<Longrightarrow> list_all2 (\<lambda>x y. f x = Inr y) xs ys"
  by (induction xs arbitrary: ys) (auto split: sum.splits)

lemma map_throwing_member:
  "map_throwing f xs = Inr ys \<Longrightarrow> y \<in> set ys \<Longrightarrow> \<exists>x \<in> set xs. f x = Inr y"
  by (induction xs arbitrary: ys) (auto split: sum.splits)

lemma map_throwing_map:
  "map_throwing f xs = Inr ys \<Longrightarrow> (\<And>x y. f x = Inr y \<Longrightarrow> g y = h x) \<Longrightarrow> map g ys = map h xs"
  by (induction xs arbitrary: ys) (auto split: sum.splits)

lemma find_snoc:
  "find P (xs @ [x]) = (case find P xs of None \<Rightarrow> (if P x then Some x else None) | Some y \<Rightarrow> Some y)"
  by (induction xs) auto

lemma take_10_Nil: "take 10 xs = [] \<longleftrightarrow> xs = []"
  by (cases xs) simp_all

lemma filter_Nil_list_ex: "filter P xs \<noteq> [] \<longleftrightarrow> list_ex P xs"
  by (induction xs) auto

lemma toUpperCase_Nil: "toUpperCase s = [] \<longleftrightarrow> s = []"
  by (simp add: toUpperCase_def)

lemma distinct_prefixed:
  "distinct (map f xs) \<Longrightarrow> distinct (map (\<lambda>x. pre @ f x) (filter P xs))"
  by (induction xs) auto

lemma distinct_by_head:
  assumes "distinct xs" and "distinct ys" and "\<forall>x \<in> set xs. hd x = c"
    and "\<forall>y \<in> set ys. hd y \<noteq> c"
  shows "distinct (xs @ ys)"
  using assms by auto

lemmas parseFloat_eval =
  parseFloat_def split_sign_def is_digit_def is_space_def digits_value_def digit_value_def
  parse_exponent_def

lemma env_all_truthy:
  "truthy (env_all ''DIGITALOCEAN_API_KEY'')" "truthy (env_all ''HETZNER_API_KEY'')"
  "truthy (env_all ''VULTR_API_KEY'')" "truthy (env_all ''UPCLOUD_USERNAME'')"
  "truthy (env_all ''UPCLOUD_PASSWORD'')" "truthy (env_all ''SCALEWAY_API_KEY'')"
  by (simp_all add: env_all_def)

section \<open>The try blocks\<close>

text \<open>
  When a \<open>try\<close> block completes, and with what; in particular on successful
  exchanges.
\<close>

lemma do_try_Inr:
  "do_try a b = Inr ps \<longleftrightarrow>
     (\<exists>da db. body_of a = Some da \<and> body_of b = Some db
        \<and> ps = map (do_transform (or_empty (do_region_list db)))
                 (filter do_keep (or_empty (do_sizes da))))"
  by (cases a; cases b)
     (simp_all add: do_try_def body_of_def and_then_Inr_iff Let_def ex_Inr_iff or_empty_def
        split: sum.splits, auto?)

lemma linode_try_Inr:
  "linode_try a b = Inr ps \<longleftrightarrow>
     (\<exists>da db. body_of a = Some da \<and> body_of b = Some db
        \<and> ps = map (linode_transform (or_empty (ln_regions_data db)))
                 (filter linode_keep (or_empty (ln_types_data da))))"
  by (cases a; cases b)
     (simp_all add: linode_try_def body_of_def and_then_Inr_iff Let_def ex_Inr_iff or_empty_def
        split: sum.splits, auto?)

lemma hetzner_try_Inr:
  "hetzner_try env a b = Inr ps \<longleftrightarrow>
     (\<exists>da db. body_of a = Some da \<and> body_of b = Some db
        \<and> map_throwing (hetzner_transform (or_empty (hz_locations db)))
            (filter (hetzner_keep env) (or_empty (hz_server_types da))) = Inr ps)"
  by (cases a; cases b)
     (simp_all add: hetzner_try_def body_of_def and_then_Inr_iff Let_def ex_Inr_iff or_empty_def
        split: sum.splits, auto?)

lemma vultr_try_Inr:
  "vultr_try a b = Inr ps \<longleftrightarrow>
     (\<exists>da db. body_of a = Some da \<and> body_of b = Some db
        \<and> ps = map (vultr_transform (regionMap (vu_regions db)))
                 (filter vultr_keep (vu_plans da)))"
  by (cases a; cases b)
     (simp_all add: vultr_try_def body_of_def and_then_Inr_iff Let_def ex_Inr_iff
        split: sum.splits, auto?)

lemma upcloud_try_Inr:
  "upcloud_try a b c = Inr ps \<longleftrightarrow>
     (\<exists>da db dc. body_of a = Some da \<and> body_of b = Some db \<and> body_of c = Some dc
        \<and> ps = map (upcloud_transform db (map ucz_description (uc_zones_zone dc)))
                 (uc_plans_plan da))"
  by (cases a; cases b; cases c)
     (simp_all add: upcloud_try_def body_of_def and_then_Inr_iff Let_def ex_Inr_iff
        split: sum.splits, auto?)

lemma scaleway_try_Inr:
  "scaleway_try a = Inr ps \<longleftrightarrow>
     (\<exists>da. body_of a = Some da
        \<and> ps = map scaleway_transform (filter scaleway_keep (sw_servers da)))"
  by (cases a)
     (simp_all add: scaleway_try_def body_of_def and_then_Inr_iff Let_def ex_Inr_iff
        split: sum.splits, auto?)

lemma do_try_ok_json:
  "do_try (ok_json sd) (ok_json rd) =
     Inr (map (do_transform (case do_region_list rd of Some xs \<Rightarrow> xs | None \<Rightarrow> []))
            (filter do_keep (case do_sizes sd of Some xs \<Rightarrow> xs | None \<Rightarrow> [])))"
  by (simp add: do_try_def ok_json_def)

lemma linode_try_ok_json:
  "linode_try (ok_json da) (ok_json db) =
     Inr (map (linode_transform (or_empty (ln_regions_data db)))
            (filter linode_keep (or_empty (ln_types_data da))))"
  by (simp add: linode_try_Inr body_of_ok_json)

lemma hetzner_try_ok_json:
  "hetzner_try env (ok_json da) (ok_json db) =
     map_throwing (hetzner_transform (or_empty (hz_locations db)))
       (filter (hetzner_keep env) (or_empty (hz_server_types da)))"
  by (simp add: hetzner_try_def ok_json_def or_empty_def)

lemma vultr_try_ok_json:
  "vultr_try (ok_json da) (ok_json db) =
     Inr (map (vultr_transform (regionMap (vu_regions db))) (filter vultr_keep (vu_plans da)))"
  by (simp add: vultr_try_Inr body_of_ok_json)

lemma upcloud_try_ok_json:
  "upcloud_try (ok_json da) (ok_json db) (ok_json dc) =
     Inr (map (upcloud_transform db (map ucz_description (uc_zones_zone dc))) (uc_plans_plan da))"
  by (simp add: upcloud_try_Inr body_of_ok_json)

lemma scaleway_try_ok_json:
  "scaleway_try (ok_json da) =
     Inr (map scaleway_transform (filter scaleway_keep (sw_servers da)))"
  by (simp add: scaleway_try_Inr body_of_ok_json)

section \<open>Failure and resolution\<close>

lemma do_failure:
  assumes "truthy (env ''DIGITALOCEAN_API_KEY'')"
    and "unsuccessful a \<or> unsuccessful b \<or> isl (do_try a b)"
  shows "contained_failure (fetchDigitalOceanPlans env a b)"
proof -
  from assms(2) have "isl (do_try a b)"
    by (auto simp: isl_iff_no_Inr do_try_Inr unsuccessful_iff)
  then obtain e where "do_try a b = Inl e" by (cases "do_try a b") auto
  with assms(1) show ?thesis
    by (simp add: fetchDigitalOceanPlans_def contained_failure_def)
qed

lemma hetzner_failure:
  assumes "truthy (env ''HETZNER_API_KEY'')"
    and "unsuccessful a \<or> unsuccessful b \<or> isl (hetzner_try env a b)"
  shows "contained_failure (fetchHetznerPlans env a b)"
proof -
  from assms(2) have "isl (hetzner_try env a b)"
    by (auto simp: isl_iff_no_Inr hetzner_try_Inr unsuccessful_iff)
  then obtain e where "hetzner_try env a b = Inl e" by (cases "hetzner_try env a b") auto
  with assms(1) show ?thesis
    by (simp add: fetchHetznerPlans_def contained_failure_def)
qed

lemma linode_failure:
  assumes "unsuccessful a \<or> unsuccessful b \<or> isl (linode_try a b)"
  shows "contained_failure (fetchLinodePlans a b)"
proof -
  from assms have "isl (linode_try a b)"
    by (auto simp: isl_iff_no_Inr linode_try_Inr unsuccessful_iff)
  then obtain e where "linode_try a b = Inl e" by (cases "linode_try a b") auto
  then show ?thesis
    by (simp add: fetchLinodePlans_def contained_failure_def)
qed

lemma vultr_failure:
  assumes "truthy (env ''VULTR_API_KEY'')"
    and "unsuccessful a \<or> unsuccessful b \<or> isl (vultr_try a b)"
  shows "contained_failure (fetchVultrPlans env a b)"
proof -
  from assms(2) have "isl (vultr_try a b)"
    by (auto simp: isl_iff_no_Inr vultr_try_Inr unsuccessful_iff)
  then obtain e where "vultr_try a b = Inl e" by (cases "vultr_try a b") auto
  with assms(1) show ?thesis
    by (simp add: fetchVultrPlans_def contained_failure_def)
qed

lemma upcloud_failure:
  assumes "truthy (env ''UPCLOUD_USERNAME'')" and "truthy (env ''UPCLOUD_PASSWORD'')"
    and "unsuccessful a \<or> unsuccessful b \<or> unsuccessful c \<or> isl (upcloud_try a b c)"
  shows "contained_failure (fetchUpCloudPlans env a b c)"
proof -
  from assms(3) have "isl (upcloud_try a b c)"
    by (auto simp: isl_iff_no_Inr upcloud_try_Inr unsuccessful_iff)
  then obtain e where "upcloud_try a b c = Inl e" by (cases "upcloud_try a b c") auto
  with assms(1,2) show ?thesis
    by (simp add: fetchUpCloudPlans_def contained_failure_def)
qed

lemma scaleway_failure:
  assumes "truthy (env ''SCALEWAY_API_KEY'')"
    and "unsuccessful a \<or> isl (scaleway_try a)"
  shows "contained_failure (fetchScalewayPlans env a)"
proof -
  from assms(2) have "isl (scaleway_try a)"
    by (auto simp: isl_iff_no_Inr scaleway_try_Inr unsuccessful_iff)
  then obtain e where "scaleway_try a = Inl e" by (cases "scaleway_try a") auto
  with assms(1) show ?thesis
    by (simp add: fetchScalewayPlans_def contained_failure_def)
qed

lemma do_resolves: "resolves (fetchDigitalOceanPlans env a b)"
  by (simp add: fetchDigitalOceanPlans_def resolves_def split: sum.splits)

lemma hetzner_resolves: "resolves (fetchHetznerPlans env a b)"
  by (simp add: fetchHetznerPlans_def resolves_def split: sum.splits)

lemma linode_resolves: "resolves (fetchLinodePlans a b)"
  by (simp add: fetchLinodePlans_def resolves_def split: sum.splits)

lemma vultr_resolves: "resolves (fetchVultrPlans env a b)"
  by (simp add: fetchVultrPlans_def resolves_def split: sum.splits)

lemma upcloud_resolves: "resolves (fetchUpCloudPlans env a b c)"
  by (simp add: fetchUpCloudPlans_def resolves_def split: sum.splits)

lemma scaleway_resolves: "resolves (fetchScalewayPlans env a)"
  by (simp add: fetchScalewayPlans_def resolves_def split: sum.splits)

lemma contained_failure_no_plans: "contained_failure run \<Longrightarrow> plans_of run = []"
  by (simp add: contained_failure_def plans_of_def)

lemma loader_of_resolved:
  assumes "snd d = Inr dp" and "snd h = Inr hp" and "snd l = Inr lp"
    and "snd v = Inr vp" and "snd u = Inr up" and "snd s = Inr sp"
  shows "plans_of (loader_of d h l v u s) = dp @ hp @ lp @ vp @ up @ sp"
  using assms by (simp add: loader_of_def plans_of_def)

lemma resolves_plans_of: "resolves run \<Longrightarrow> snd run = Inr (plans_of run)"
  by (cases "snd run") (simp_all add: resolves_def plans_of_def)

lemma loader_plans:
  "plans_of (vpsPlans_loader env w) =
     plans_of (fetchDigitalOceanPlans env (w_do_sizes w) (w_do_regions w))
     @ plans_of (fetchHetznerPlans env (w_hz_server_types w) (w_hz_locations w))
     @ plans_of (fetchLinodePlans (w_ln_types w) (w_ln_regions w))
     @ plans_of (fetchVultrPlans env (w_vu_plans w) (w_vu_regions w))
     @ plans_of (fetchUpCloudPlans env (w_uc_plans w) (w_uc_prices w) (w_uc_zones w))
     @ plans_of (fetchScalewayPlans env (w_sw_servers w))"
  unfolding vpsPlans_loader_def
  by (intro loader_of_resolved resolves_plans_of do_resolves hetzner_resolves linode_resolves
        vultr_resolves upcloud_resolves scaleway_resolves)

section \<open>The plans a loader emits\<close>

text \<open>
  The output of a loader is empty or the image of the listed raw items that pass its
  filter, in their order.
\<close>

lemma hetzner_transform_Inr:
  "hetzner_transform locs st = Inr p \<Longrightarrow>
   \<exists>c. cheapestPrice (hz_prices st) = Inr c \<and> hetzner_transform locs st = Inr p
        \<and> monthly (price p) = parseFloat (price_monthly_gross c)
        \<and> ram (specs p) = \<lparr> ram_amount = hz_memory st, ram_unit = ''GB'' \<rparr>
        \<and> locations p = map (\<lambda>loc. hzl_city loc @ '', '' @ hzl_country loc) locs
        \<and> plan_id p = ''hetzner-'' @ toLowerCase (hz_name st)"
  by (cases "cheapestPrice (hz_prices st)") (auto simp: hetzner_transform_def Let_def)

lemma do_plans:
  "plans_of (fetchDigitalOceanPlans env a b) = []
   \<or> plans_of (fetchDigitalOceanPlans env a b)
      = map (do_transform (listed (or_empty \<circ> do_region_list) b))
          (filter do_keep (listed (or_empty \<circ> do_sizes) a))"
proof (cases "do_try a b")
  case (Inl e)
  then show ?thesis by (simp add: fetchDigitalOceanPlans_def plans_of_def)
next
  case (Inr ps)
  then have 1: "plans_of (fetchDigitalOceanPlans env a b) = [] \<or> plans_of (fetchDigitalOceanPlans env a b) = ps"
    by (simp add: fetchDigitalOceanPlans_def plans_of_def)
  from Inr [unfolded do_try_Inr] 1 show ?thesis
    by (auto simp: listed_def)
qed

lemma linode_plans:
  "plans_of (fetchLinodePlans a b) = []
   \<or> plans_of (fetchLinodePlans a b)
      = map (linode_transform (listed (or_empty \<circ> ln_regions_data) b))
          (filter linode_keep (listed (or_empty \<circ> ln_types_data) a))"
proof (cases "linode_try a b")
  case (Inl e)
  then show ?thesis by (simp add: fetchLinodePlans_def plans_of_def)
next
  case (Inr ps)
  then have 1: "plans_of (fetchLinodePlans a b) = [] \<or> plans_of (fetchLinodePlans a b) = ps"
    by (simp add: fetchLinodePlans_def plans_of_def)
  from Inr [unfolded linode_try_Inr] 1 show ?thesis
    by (auto simp: listed_def)
qed

lemma hetzner_plans:
  "plans_of (fetchHetznerPlans env a b) = []
   \<or> map_throwing (hetzner_transform (listed (or_empty \<circ> hz_locations) b))
        (filter (hetzner_keep env) (listed (or_empty \<circ> hz_server_types) a))
      = Inr (plans_of (fetchHetznerPlans env a b))"
proof (cases "hetzner_try env a b")
  case (Inl e)
  then show ?thesis by (simp add: fetchHetznerPlans_def plans_of_def)
next
  case (Inr ps)
  then have 1: "plans_of (fetchHetznerPlans env a b) = [] \<or> plans_of (fetchHetznerPlans env a b) = ps"
    by (simp add: fetchHetznerPlans_def plans_of_def)
  from Inr [unfolded hetzner_try_Inr] 1 show ?thesis
    by (auto simp: listed_def)
qed

lemma vultr_plans:
  "plans_of (fetchVultrPlans env a b) = []
   \<or> plans_of (fetchVultrPlans env a b)
      = map (vultr_transform (regionMap (listed vu_regions b)))
          (filter vultr_keep (listed vu_plans a))"
proof (cases "vultr_try a b")
  case (Inl e)
  then show ?thesis by (simp add: fetchVultrPlans_def plans_of_def)
next
  case (Inr ps)
  then have 1: "plans_of (fetchVultrPlans env a b) = [] \<or> plans_of (fetchVultrPlans env a b) = ps"
    by (simp add: fetchVultrPlans_def plans_of_def)
  from Inr [unfolded vultr_try_Inr] 1 show ?thesis
    by (auto simp: listed_def)
qed

lemma upcloud_plans:
  "plans_of (fetchUpCloudPlans env a b c) = []
   \<or> (\<exists>pricing. body_of b = Some pricing
        \<and> plans_of (fetchUpCloudPlans env a b c)
          = map (upcloud_transform pricing (map ucz_description (listed uc_zones_zone c)))
              (listed uc_plans_plan a))"
proof (cases "upcloud_try a b c")
  case (Inl e)
  then show ?thesis by (simp add: fetchUpCloudPlans_def plans_of_def)
next
  case (Inr ps)
  then have 1: "plans_of (fetchUpCloudPlans env a b c) = [] \<or> plans_of (fetchUpCloudPlans env a b c) = ps"
    by (simp add: fetchUpCloudPlans_def plans_of_def)
  from Inr [unfolded upcloud_try_Inr] 1 show ?thesis
    by (auto simp: listed_def)
qed

lemma scaleway_plans:
  "plans_of (fetchScalewayPlans env a) = []
   \<or> plans_of (fetchScalewayPlans env a)
      = map scaleway_transform (filter scaleway_keep (listed sw_servers a))"
proof (cases "scaleway_try a")
  case (Inl e)
  then show ?thesis by (simp add: fetchScalewayPlans_def plans_of_def)
next
  case (Inr ps)
  then have 1: "plans_of (fetchScalewayPlans env a) = [] \<or> plans_of (fetchScalewayPlans env a) = ps"
    by (simp add: fetchScalewayPlans_def plans_of_def)
  from Inr [unfolded scaleway_try_Inr] 1 show ?thesis
    by (auto simp: listed_def)
qed

lemma do_emitted:
  assumes "p \<in> set (plans_of (fetchDigitalOceanPlans env a b))"
  shows "\<exists>sz \<in> set (listed (or_empty \<circ> do_sizes) a).
           do_keep sz \<and> p = do_transform (listed (or_empty \<circ> do_region_list) b) sz"
  using assms do_plans [of env a b] by auto

lemma linode_emitted:
  assumes "p \<in> set (plans_of (fetchLinodePlans a b))"
  shows "\<exists>ty \<in> set (listed (or_empty \<circ> ln_types_data) a).
           linode_keep ty \<and> p = linode_transform (listed (or_empty \<circ> ln_regions_data) b) ty"
  using assms linode_plans [of a b] by auto

lemma hetzner_emitted:
  assumes "p \<in> set (plans_of (fetchHetznerPlans env a b))"
  shows "\<exists>st \<in> set (listed (or_empty \<circ> hz_server_types) a).
           hetzner_keep env st
           \<and> hetzner_transform (listed (or_empty \<circ> hz_locations) b) st = Inr p"
proof -
  from assms hetzner_plans [of env a b]
  have "map_throwing (hetzner_transform (listed (or_empty \<circ> hz_locations) b))
          (filter (hetzner_keep env) (listed (or_empty \<circ> hz_server_types) a))
        = Inr (plans_of (fetchHetznerPlans env a b))"
    by auto
  from map_throwing_member [OF this assms] show ?thesis by auto
qed

lemma vultr_emitted:
  assumes "p \<in> set (plans_of (fetchVultrPlans env a b))"
  shows "\<exists>pl \<in> set (listed vu_plans a).
           vultr_keep pl \<and> p = vultr_transform (regionMap (listed vu_regions b)) pl"
  using assms vultr_plans [of env a b] by auto

lemma upcloud_emitted:
  assumes "p \<in> set (plans_of (fetchUpCloudPlans env a b c))"
  shows "\<exists>pl \<in> set (listed uc_plans_plan a). \<exists>pricing. body_of b = Some pricing
           \<and> p = upcloud_transform pricing (map ucz_description (listed uc_zones_zone c)) pl"
  using assms upcloud_plans [of env a b c] by auto

lemma scaleway_emitted:
  assumes "p \<in> set (plans_of (fetchScalewayPlans env a))"
  shows "\<exists>entry \<in> set (listed sw_servers a).
           scaleway_keep entry \<and> p = scaleway_transform entry"
  using assms scaleway_plans [of env a] by auto

section \<open>The reduce over the price tiers\<close>

text \<open>
  \<open>reduce\<close> starts from the first tier and replaces the running minimum only when the
  current tier parses to a strictly smaller number. A comparison with \<open>NaN\<close> is false, so
  a later tier that is not numeric is skipped, and a first tier that is not numeric is
  never replaced.
\<close>

lemma numeric_parse:
  "numeric_tier q \<Longrightarrow> parseFloat (price_monthly_gross q) = Num (tier_value q)"
  by (cases "parseFloat (price_monthly_gross q)") (auto simp: numeric_tier_def tier_value_def)

lemma cheaper_numeric:
  "numeric_tier a \<Longrightarrow> numeric_tier b \<Longrightarrow>
   cheaper a b = (if tier_value b < tier_value a then b else a)"
  by (simp add: cheaper_def numeric_parse)

lemma cheaper_nan_first:
  "\<not> numeric_tier a \<Longrightarrow> cheaper a b = a"
  by (simp add: cheaper_def numeric_tier_def)

lemma cheaper_nan_current:
  "\<not> numeric_tier b \<Longrightarrow> cheaper a b = a"
  by (cases "parseFloat (price_monthly_gross a)") (simp_all add: cheaper_def numeric_tier_def)

lemma foldl_cheaper_nan:
  "\<not> numeric_tier p \<Longrightarrow> foldl cheaper p ps = p"
  by (induction ps) (simp_all add: cheaper_nan_first)

lemma foldl_cheaper_min:
  assumes "numeric_tier p"
  shows "numeric_tier (foldl cheaper p ps)
         \<and> tier_value (foldl cheaper p ps)
             = Min (tier_value ` set (filter numeric_tier (p # ps)))
         \<and> find (\<lambda>q. numeric_tier q
                       \<and> tier_value q = Min (tier_value ` set (filter numeric_tier (p # ps))))
               (p # ps)
             = Some (foldl cheaper p ps)"
proof (induction ps rule: rev_induct)
  case Nil
  from assms show ?case by simp
next
  case (snoc x xs)
  define ys where "ys = p # xs"
  define c where "c = foldl cheaper p xs"
  define m where "m = Min (tier_value ` set (filter numeric_tier ys))"
  from snoc have ih: "numeric_tier c" "tier_value c = m"
    "find (\<lambda>q. numeric_tier q \<and> tier_value q = m) ys = Some c"
    by (simp_all add: ys_def c_def m_def)
  have ys: "p # xs @ [x] = ys @ [x]" by (simp add: ys_def)
  have fold: "foldl cheaper p (xs @ [x]) = cheaper c x" by (simp add: c_def)
  have pin: "p \<in> set (filter numeric_tier ys)" using assms by (simp add: ys_def)
  show ?case
  proof (cases "numeric_tier x")
    case False
    then have "filter numeric_tier (ys @ [x]) = filter numeric_tier ys" by simp
    moreover from False have "cheaper c x = c" by (rule cheaper_nan_current)
    moreover from ih(3) False
    have "find (\<lambda>q. numeric_tier q \<and> tier_value q = m) (ys @ [x]) = Some c"
      by (simp only: find_snoc) simp
    ultimately show ?thesis
      unfolding ys fold using ih by (simp add: m_def)
  next
    case nx: True
    have "tier_value ` set (filter numeric_tier (ys @ [x]))
          = insert (tier_value x) (tier_value ` set (filter numeric_tier ys))"
      using nx by auto
    moreover have "finite (tier_value ` set (filter numeric_tier ys))"
      "tier_value ` set (filter numeric_tier ys) \<noteq> {}"
      using pin by auto
    ultimately have mn: "Min (tier_value ` set (filter numeric_tier (ys @ [x])))
                         = min (tier_value x) m"
      unfolding m_def by (metis Min_insert)
    have step: "cheaper c x = (if tier_value x < m then x else c)"
      using ih nx by (simp add: cheaper_numeric)
    have lower: "m \<le> tier_value q" if "q \<in> set ys" and "numeric_tier q" for q
      unfolding m_def using that by (intro Min_le) auto
    show ?thesis
    proof (cases "tier_value x < m")
      case True
      have "\<not> (numeric_tier q \<and> tier_value q = tier_value x)" if "q \<in> set ys" for q
        using lower [OF that] True by auto
      then have "find (\<lambda>q. numeric_tier q \<and> tier_value q = tier_value x) ys = None"
        by (simp only: find_None_iff) blast
      then have "find (\<lambda>q. numeric_tier q \<and> tier_value q = tier_value x) (ys @ [x]) = Some x"
        using nx by (simp only: find_snoc) simp
      moreover from True have "min (tier_value x) m = tier_value x" by simp
      ultimately show ?thesis
        unfolding ys fold step mn using True nx by simp
    next
      case False
      from ih(3) have "find (\<lambda>q. numeric_tier q \<and> tier_value q = m) (ys @ [x]) = Some c"
        by (simp only: find_snoc) simp
      moreover from False have "min (tier_value x) m = m" by simp
      ultimately show ?thesis
        unfolding ys fold step mn using False ih by simp
    qed
  qed
qed

lemma cheapestPrice_Cons: "cheapestPrice (q # qs) = Inr (foldl cheaper q qs)"
  by (simp add: cheapestPrice_def)

lemma cheapestPrice_nonempty: "cheapestPrice prices = Inr c \<Longrightarrow> prices \<noteq> []"
  by (auto simp: cheapestPrice_def)

section \<open>The example runs\<close>

lemma cx11_cheapest:
  "cheapestPrice (hz_prices cx11) = Inr \<lparr> price_monthly_gross = ''4.15'' \<rparr>"
  by (simp add: cx11_def cheapestPrice_def cheaper_def parseFloat_eval)

lemma small_world_plans:
  "plans_of (fetchDigitalOceanPlans env_all (w_do_sizes small_world) (w_do_regions small_world))
   = [do_transform [region_nyc1] size_1gb]"
  "plans_of (fetchLinodePlans (w_ln_types small_world) (w_ln_regions small_world))
   = [linode_transform [newark] nanode]"
  "plans_of (fetchVultrPlans env_all (w_vu_plans small_world) (w_vu_regions small_world))
   = [vultr_transform (regionMap [vultr_ewr]) vultr_512]"
  "plans_of (fetchUpCloudPlans env_all (w_uc_plans small_world) (w_uc_prices small_world)
               (w_uc_zones small_world))
   = [upcloud_transform upcloud_prices [''Helsinki #1''] upcloud_2x4]"
  "plans_of (fetchScalewayPlans env_all (w_sw_servers small_world))
   = [scaleway_transform dev1_s]"
  "hetzner_transform [falkenstein] cx11
   = Inr (hd (plans_of (fetchHetznerPlans env_all (w_hz_server_types small_world)
                          (w_hz_locations small_world))))"
  "length (plans_of (fetchHetznerPlans env_all (w_hz_server_types small_world)
                       (w_hz_locations small_world))) = 1"
  by (simp_all add: small_world_def env_all_truthy plans_of_def or_empty_def
        fetchDigitalOceanPlans_def do_try_ok_json do_keep_def size_1gb_def
        fetchLinodePlans_def linode_try_ok_json linode_keep_def nanode_def
        fetchVultrPlans_def vultr_try_ok_json vultr_keep_def vultr_512_def
        fetchUpCloudPlans_def upcloud_try_ok_json helsinki_def
        fetchScalewayPlans_def scaleway_try_ok_json scaleway_keep_def dev1_s_def
        fetchHetznerPlans_def hetzner_try_ok_json hetzner_keep_def
        hetzner_transform_def cx11_cheapest Let_def)
     (simp_all add: cx11_def)

lemma small_world_listed:
  "listed (or_empty \<circ> do_sizes) (w_do_sizes small_world) = [size_1gb]"
  "listed (or_empty \<circ> ln_types_data) (w_ln_types small_world) = [nanode]"
  "listed vu_plans (w_vu_plans small_world) = [vultr_512]"
  "listed uc_plans_plan (w_uc_plans small_world) = [upcloud_2x4]"
  "listed (or_empty \<circ> hz_server_types) (w_hz_server_types small_world) = [cx11]"
  "listed sw_servers (w_sw_servers small_world) = [dev1_s]"
  by (simp_all add: small_world_def listed_ok_json or_empty_def)

lemma example_runs:
  "resolves digitalocean_run" "resolves idle_run" "\<not> resolves rejecting_run"
  "plans_of idle_run = []"
  by (simp_all add: digitalocean_run_def do_resolves)
     (simp_all add: idle_run_def rejecting_run_def resolves_def plans_of_def)

lemma hetzner_run_plan:
  "\<exists>hp. plans_of hetzner_run = [hp] \<and> hetzner_transform [falkenstein] cx11 = Inr hp"
  by (simp add: hetzner_run_def fetchHetznerPlans_def env_all_truthy hetzner_try_ok_json
        or_empty_def hetzner_keep_def plans_of_def hetzner_transform_def cx11_cheapest Let_def)
     (simp add: cx11_def)

section \<open>C1: failures are contained by every loader\<close>

text \<open>
  C1. For each of the six loaders (with its credentials set, where it needs any): when
  one of its requests is unsuccessful (the fetch rejects, the status is not a success or
  the body does not parse), or when anything in the \<open>try\<close> block throws, the promise
  resolves to the empty array and the console shows exactly one error. The promise of a
  loader never rejects, whatever the environment and the responses.
\<close>

theorem failures_are_contained:
  "(truthy (env ''DIGITALOCEAN_API_KEY'')
      \<and> (unsuccessful d1 \<or> unsuccessful d2 \<or> isl (do_try d1 d2))
      \<longrightarrow> contained_failure (fetchDigitalOceanPlans env d1 d2))
   \<and> (truthy (env ''HETZNER_API_KEY'')
      \<and> (unsuccessful h1 \<or> unsuccessful h2 \<or> isl (hetzner_try env h1 h2))
      \<longrightarrow> contained_failure (fetchHetznerPlans env h1 h2))
   \<and> (unsuccessful l1 \<or> unsuccessful l2 \<or> isl (linode_try l1 l2)
      \<longrightarrow> contained_failure (fetchLinodePlans l1 l2))
   \<and> (truthy (env ''VULTR_API_KEY'')
      \<and> (unsuccessful v1 \<or> unsuccessful v2 \<or> isl (vultr_try v1 v2))
      \<longrightarrow> contained_failure (fetchVultrPlans env v1 v2))
   \<and> (truthy (env ''UPCLOUD_USERNAME'') \<and> truthy (env ''UPCLOUD_PASSWORD'')
      \<and> (unsuccessful u1 \<or> unsuccessful u2 \<or> unsuccessful u3 \<or> isl (upcloud_try u1 u2 u3))
      \<longrightarrow> contained_failure (fetchUpCloudPlans env u1 u2 u3))
   \<and> (truthy (env ''SCALEWAY_API_KEY'') \<and> (unsuccessful s1 \<or> isl (scaleway_try s1))
      \<longrightarrow> contained_failure (fetchScalewayPlans env s1))
   \<and> resolves (fetchDigitalOceanPlans env d1 d2)
   \<and> resolves (fetchHetznerPlans env h1 h2)
   \<and> resolves (fetchLinodePlans l1 l2)
   \<and> resolves (fetchVultrPlans env v1 v2)
   \<and> resolves (fetchUpCloudPlans env u1 u2 u3)
   \<and> resolves (fetchScalewayPlans env s1)"
proof (intro conjI impI)
  show "contained_failure (fetchDigitalOceanPlans env d1 d2)"
    if "truthy (env ''DIGITALOCEAN_API_KEY'')
        \<and> (unsuccessful d1 \<or> unsuccessful d2 \<or> isl (do_try d1 d2))"
    using that do_failure by blast
  show "contained_failure (fetchHetznerPlans env h1 h2)"
    if "truthy (env ''HETZNER_API_KEY'')
        \<and> (unsuccessful h1 \<or> unsuccessful h2 \<or> isl (hetzner_try env h1 h2))"
    using that hetzner_failure by blast
  show "contained_failure (fetchLinodePlans l1 l2)"
    if "unsuccessful l1 \<or> unsuccessful l2 \<or> isl (linode_try l1 l2)"
    using that by (rule linode_failure)
  show "contained_failure (fetchVultrPlans env v1 v2)"
    if "truthy (env ''VULTR_API_KEY'')
        \<and> (unsuccessful v1 \<or> unsuccessful v2 \<or> isl (vultr_try v1 v2))"
    using that vultr_failure by blast
  show "contained_failure (fetchUpCloudPlans env u1 u2 u3)"
    if "truthy (env ''UPCLOUD_USERNAME'') \<and> truthy (env ''UPCLOUD_PASSWORD'')
        \<and> (unsuccessful u1 \<or> unsuccessful u2 \<or> unsuccessful u3 \<or> isl (upcloud_try u1 u2 u3))"
    using that upcloud_failure by blast
  show "contained_failure (fetchScalewayPlans env s1)"
    if "truthy (env ''SCALEWAY_API_KEY'') \<and> (unsuccessful s1 \<or> isl (scaleway_try s1))"
    using that scaleway_failure by blast
qed (rule do_resolves hetzner_resolves linode_resolves vultr_resolves upcloud_resolves
       scaleway_resolves)+

text \<open>
  C1, witness: a 500 response for DigitalOcean, Vultr, UpCloud and Scaleway, a rejected
  fetch for Linode, and for Hetzner a server type without prices, on which
  \<open>reduce\<close> throws during the transformation.
\<close>

theorem failures_are_contained_witness:
  "(truthy (env_all ''DIGITALOCEAN_API_KEY'') \<and> unsuccessful (server_error :: DOSizesResponse fetched))
   \<and> contained_failure (fetchDigitalOceanPlans env_all server_error
         (ok_json \<lparr> do_region_list = Some [region_nyc1] \<rparr>))
   \<and> (truthy (env_all ''HETZNER_API_KEY'')
        \<and> isl (hetzner_try env_all
                 (ok_json \<lparr> hz_server_types = Some [cx11\<lparr> hz_prices := [] \<rparr>] \<rparr>)
                 (ok_json \<lparr> hz_locations = Some [falkenstein] \<rparr>)))
   \<and> contained_failure (fetchHetznerPlans env_all
         (ok_json \<lparr> hz_server_types = Some [cx11\<lparr> hz_prices := [] \<rparr>] \<rparr>)
         (ok_json \<lparr> hz_locations = Some [falkenstein] \<rparr>))
   \<and> unsuccessful (Inl (TypeError ''fetch failed'') :: LinodeRegionsResponse fetched)
   \<and> contained_failure (fetchLinodePlans (ok_json \<lparr> ln_types_data = Some [] \<rparr>)
         (Inl (TypeError ''fetch failed'')))
   \<and> (truthy (env_all ''VULTR_API_KEY'') \<and> unsuccessful (server_error :: VultrRegionsResponse fetched))
   \<and> contained_failure (fetchVultrPlans env_all (ok_json \<lparr> vu_plans = [] \<rparr>) server_error)
   \<and> (truthy (env_all ''UPCLOUD_USERNAME'') \<and> truthy (env_all ''UPCLOUD_PASSWORD'')
        \<and> unsuccessful (server_error :: UpCloudPricing fetched))
   \<and> contained_failure (fetchUpCloudPlans env_all (ok_json \<lparr> uc_plans_plan = [] \<rparr>)
         server_error (ok_json \<lparr> uc_zones_zone = [] \<rparr>))
   \<and> (truthy (env_all ''SCALEWAY_API_KEY'')
        \<and> unsuccessful (server_error :: ScalewayServersResponse fetched))
   \<and> contained_failure (fetchScalewayPlans env_all server_error)"
proof -
  have h: "isl (hetzner_try env_all
                 (ok_json \<lparr> hz_server_types = Some [cx11\<lparr> hz_prices := [] \<rparr>] \<rparr>)
                 (ok_json \<lparr> hz_locations = Some [falkenstein] \<rparr>))"
    by (simp add: hetzner_try_def ok_json_def hetzner_keep_def cx11_def hetzner_transform_def
          cheapestPrice_def env_all_def)
  show ?thesis
    using h failures_are_contained [where env = env_all
        and ?d1.0 = server_error and ?d2.0 = "ok_json \<lparr> do_region_list = Some [region_nyc1] \<rparr>"
        and ?h1.0 = "ok_json \<lparr> hz_server_types = Some [cx11\<lparr> hz_prices := [] \<rparr>] \<rparr>"
        and ?h2.0 = "ok_json \<lparr> hz_locations = Some [falkenstein] \<rparr>"
        and ?l1.0 = "ok_json \<lparr> ln_types_data = Some [] \<rparr>"
        and ?l2.0 = "Inl (TypeError ''fetch failed'')"
        and ?v1.0 = "ok_json \<lparr> vu_plans = [] \<rparr>" and ?v2.0 = server_error
        and ?u1.0 = "ok_json \<lparr> uc_plans_plan = [] \<rparr>" and ?u2.0 = server_error
        and ?u3.0 = "ok_json \<lparr> uc_zones_zone = [] \<rparr>" and ?s1.0 = server_error]
    by (simp add: env_all_def unsuccessful_def server_error_def)
qed

section \<open>C2: the unit of memory\<close>

lemma do_ram:
  "ram (specs (do_transform regs sz)) =
     (if 1024 \<le> do_memory sz
      then \<lparr> ram_amount = do_memory sz / 1024, ram_unit = ''GB'' \<rparr>
      else \<lparr> ram_amount = do_memory sz, ram_unit = ''MB'' \<rparr>)"
  by (simp add: do_transform_def Let_def)

lemma linode_ram:
  "ram (specs (linode_transform regs ty)) =
     (if 1024 \<le> ln_memory ty
      then \<lparr> ram_amount = ln_memory ty / 1024, ram_unit = ''GB'' \<rparr>
      else \<lparr> ram_amount = ln_memory ty, ram_unit = ''MB'' \<rparr>)"
  by (simp add: linode_transform_def Let_def)

lemma vultr_ram:
  "ram (specs (vultr_transform rmap pl)) = \<lparr> ram_amount = vu_ram pl / 1024, ram_unit = ''GB'' \<rparr>"
  by (simp add: vultr_transform_def Let_def)

lemma upcloud_ram:
  "ram (specs (upcloud_transform pricing zones pl))
   = \<lparr> ram_amount = uc_memory_amount pl / 1024, ram_unit = ''GB'' \<rparr>"
  by (simp add: upcloud_transform_def Let_def)

lemma scaleway_ram:
  "ram (specs (scaleway_transform entry))
   = \<lparr> ram_amount = sw_ram (snd entry) / (1024 * 1024 * 1024), ram_unit = ''GB'' \<rparr>"
  by (simp add: scaleway_transform_def Let_def)

text \<open>
  C2, as amended. Every plan emitted by the DigitalOcean or the Linode loader comes from
  a listed raw item whose memory in MB decides the unit: GB with the amount divided by
  1024 when the memory is at least 1024, MB with the amount unchanged otherwise. Every
  plan emitted by the Vultr or the UpCloud loader has unit GB and the raw MB value
  divided by 1024, whatever the value. The Hetzner loader reports the memory figure of
  the server type unchanged with unit GB, and the Scaleway loader the raw number of bytes
  divided by \<open>1024 * 1024 * 1024\<close> with unit GB.
\<close>

theorem ram_units:
  "(\<forall>p \<in> set (plans_of (fetchDigitalOceanPlans env d1 d2)).
      \<exists>sz \<in> set (listed (or_empty \<circ> do_sizes) d1).
        p = do_transform (listed (or_empty \<circ> do_region_list) d2) sz
        \<and> ram (specs p) =
            (if 1024 \<le> do_memory sz
             then \<lparr> ram_amount = do_memory sz / 1024, ram_unit = ''GB'' \<rparr>
             else \<lparr> ram_amount = do_memory sz, ram_unit = ''MB'' \<rparr>))
   \<and> (\<forall>p \<in> set (plans_of (fetchLinodePlans l1 l2)).
      \<exists>ty \<in> set (listed (or_empty \<circ> ln_types_data) l1).
        p = linode_transform (listed (or_empty \<circ> ln_regions_data) l2) ty
        \<and> ram (specs p) =
            (if 1024 \<le> ln_memory ty
             then \<lparr> ram_amount = ln_memory ty / 1024, ram_unit = ''GB'' \<rparr>
             else \<lparr> ram_amount = ln_memory ty, ram_unit = ''MB'' \<rparr>))
   \<and> (\<forall>p \<in> set (plans_of (fetchVultrPlans env v1 v2)).
      \<exists>pl \<in> set (listed vu_plans v1).
        p = vultr_transform (regionMap (listed vu_regions v2)) pl
        \<and> ram (specs p) = \<lparr> ram_amount = vu_ram pl / 1024, ram_unit = ''GB'' \<rparr>)
   \<and> (\<forall>p \<in> set (plans_of (fetchUpCloudPlans env u1 u2 u3)).
      \<exists>pl \<in> set (listed uc_plans_plan u1). \<exists>pricing.
        body_of u2 = Some pricing
        \<and> p = upcloud_transform pricing (map ucz_description (listed uc_zones_zone u3)) pl
        \<and> ram (specs p) = \<lparr> ram_amount = uc_memory_amount pl / 1024, ram_unit = ''GB'' \<rparr>)
   \<and> (\<forall>p \<in> set (plans_of (fetchHetznerPlans env h1 h2)).
      \<exists>st \<in> set (listed (or_empty \<circ> hz_server_types) h1).
        hetzner_transform (listed (or_empty \<circ> hz_locations) h2) st = Inr p
        \<and> ram (specs p) = \<lparr> ram_amount = hz_memory st, ram_unit = ''GB'' \<rparr>)
   \<and> (\<forall>p \<in> set (plans_of (fetchScalewayPlans env s1)).
      \<exists>entry \<in> set (listed sw_servers s1).
        p = scaleway_transform entry
        \<and> ram (specs p)
          = \<lparr> ram_amount = sw_ram (snd entry) / (1024 * 1024 * 1024), ram_unit = ''GB'' \<rparr>)"
proof (intro conjI ballI)
  fix p assume "p \<in> set (plans_of (fetchDigitalOceanPlans env d1 d2))"
  from do_emitted [OF this]
  show "\<exists>sz \<in> set (listed (or_empty \<circ> do_sizes) d1).
        p = do_transform (listed (or_empty \<circ> do_region_list) d2) sz
        \<and> ram (specs p) =
            (if 1024 \<le> do_memory sz
             then \<lparr> ram_amount = do_memory sz / 1024, ram_unit = ''GB'' \<rparr>
             else \<lparr> ram_amount = do_memory sz, ram_unit = ''MB'' \<rparr>)"
    using do_ram by blast
next
  fix p assume "p \<in> set (plans_of (fetchLinodePlans l1 l2))"
  from linode_emitted [OF this]
  show "\<exists>ty \<in> set (listed (or_empty \<circ> ln_types_data) l1).
        p = linode_transform (listed (or_empty \<circ> ln_regions_data) l2) ty
        \<and> ram (specs p) =
            (if 1024 \<le> ln_memory ty
             then \<lparr> ram_amount = ln_memory ty / 1024, ram_unit = ''GB'' \<rparr>
             else \<lparr> ram_amount = ln_memory ty, ram_unit = ''MB'' \<rparr>)"
    using linode_ram by blast
next
  fix p assume "p \<in> set (plans_of (fetchVultrPlans env v1 v2))"
  from vultr_emitted [OF this]
  show "\<exists>pl \<in> set (listed vu_plans v1).
        p = vultr_transform (regionMap (listed vu_regions v2)) pl
        \<and> ram (specs p) = \<lparr> ram_amount = vu_ram pl / 1024, ram_unit = ''GB'' \<rparr>"
    using vultr_ram by blast
next
  fix p assume "p \<in> set (plans_of (fetchUpCloudPlans env u1 u2 u3))"
  from upcloud_emitted [OF this]
  show "\<exists>pl \<in> set (listed uc_plans_plan u1). \<exists>pricing.
        body_of u2 = Some pricing
        \<and> p = upcloud_transform pricing (map ucz_description (listed uc_zones_zone u3)) pl
        \<and> ram (specs p) = \<lparr> ram_amount = uc_memory_amount pl / 1024, ram_unit = ''GB'' \<rparr>"
    using upcloud_ram by blast
next
  fix p assume "p \<in> set (plans_of (fetchHetznerPlans env h1 h2))"
  from hetzner_emitted [OF this]
  show "\<exists>st \<in> set (listed (or_empty \<circ> hz_server_types) h1).
        hetzner_transform (listed (or_empty \<circ> hz_locations) h2) st = Inr p
        \<and> ram (specs p) = \<lparr> ram_amount = hz_memory st, ram_unit = ''GB'' \<rparr>"
    using hetzner_transform_Inr by blast
next
  fix p assume "p \<in> set (plans_of (fetchScalewayPlans env s1))"
  from scaleway_emitted [OF this]
  show "\<exists>entry \<in> set (listed sw_servers s1).
        p = scaleway_transform entry
        \<and> ram (specs p)
          = \<lparr> ram_amount = sw_ram (snd entry) / (1024 * 1024 * 1024), ram_unit = ''GB'' \<rparr>"
    using scaleway_ram by blast
qed

text \<open>
  C2, witness: one plan per provider.
\<close>

theorem ram_units_witness:
  "map (\<lambda>p. ram (specs p))
     (plans_of (fetchDigitalOceanPlans env_all (w_do_sizes small_world) (w_do_regions small_world)))
   = [\<lparr> ram_amount = 1, ram_unit = ''GB'' \<rparr>]
   \<and> map (\<lambda>p. ram (specs p))
       (plans_of (fetchLinodePlans (w_ln_types small_world) (w_ln_regions small_world)))
     = [\<lparr> ram_amount = 1, ram_unit = ''GB'' \<rparr>]
   \<and> map (\<lambda>p. ram (specs p))
       (plans_of (fetchVultrPlans env_all (w_vu_plans small_world) (w_vu_regions small_world)))
     = [\<lparr> ram_amount = 1 / 2, ram_unit = ''GB'' \<rparr>]
   \<and> map (\<lambda>p. ram (specs p))
       (plans_of (fetchUpCloudPlans env_all (w_uc_plans small_world) (w_uc_prices small_world)
                    (w_uc_zones small_world)))
     = [\<lparr> ram_amount = 4, ram_unit = ''GB'' \<rparr>]
   \<and> map (\<lambda>p. ram (specs p))
       (plans_of (fetchHetznerPlans env_all (w_hz_server_types small_world)
                    (w_hz_locations small_world)))
     = [\<lparr> ram_amount = 2, ram_unit = ''GB'' \<rparr>]
   \<and> map (\<lambda>p. ram (specs p))
       (plans_of (fetchScalewayPlans env_all (w_sw_servers small_world)))
     = [\<lparr> ram_amount = 2, ram_unit = ''GB'' \<rparr>]"
proof -
  obtain hp where hp:
    "plans_of (fetchHetznerPlans env_all (w_hz_server_types small_world)
                 (w_hz_locations small_world)) = [hp]"
    using small_world_plans(7) by (auto simp: length_Suc_conv)
  have "hetzner_transform [falkenstein] cx11 = Inr hp"
    using small_world_plans(6) by (simp add: hp)
  from hetzner_transform_Inr [OF this]
  have h: "ram (specs hp) = \<lparr> ram_amount = 2, ram_unit = ''GB'' \<rparr>"
    by (auto simp: cx11_def)
  show ?thesis
    using ram_units [where env = env_all
      and ?d1.0 = "w_do_sizes small_world" and ?d2.0 = "w_do_regions small_world"
      and ?l1.0 = "w_ln_types small_world" and ?l2.0 = "w_ln_regions small_world"
      and ?v1.0 = "w_vu_plans small_world" and ?v2.0 = "w_vu_regions small_world"
      and ?u1.0 = "w_uc_plans small_world" and ?u2.0 = "w_uc_prices small_world"
      and ?u3.0 = "w_uc_zones small_world"
      and ?h1.0 = "w_hz_server_types small_world" and ?h2.0 = "w_hz_locations small_world"
      and ?s1.0 = "w_sw_servers small_world"]
    by (simp add: small_world_plans hp h do_ram linode_ram vultr_ram upcloud_ram scaleway_ram
          size_1gb_def nanode_def vultr_512_def upcloud_2x4_def dev1_s_def)
qed

text \<open>
  C2, counterexample to the claim as stated: a Vultr plan with 512 MB of memory is
  emitted with unit GB and amount 1/2.
\<close>

theorem vultr_half_gigabyte:
  "vu_ram vultr_512 < 1024
   \<and> map (\<lambda>p. ram (specs p))
       (plans_of (fetchVultrPlans env_all (ok_json \<lparr> vu_plans = [vultr_512] \<rparr>)
                    (ok_json \<lparr> vu_regions = [vultr_ewr] \<rparr>)))
     = [\<lparr> ram_amount = 1 / 2, ram_unit = ''GB'' \<rparr>]"
  by (simp add: fetchVultrPlans_def vultr_try_ok_json env_all_truthy plans_of_def
        vultr_keep_def vultr_ram) (simp add: vultr_512_def)

section \<open>C3: the cap on locations\<close>

text \<open>
  Five loaders cut the list of locations with \<open>slice(0, 10)\<close>; the Hetzner loader
  emits one entry per location of the response.
\<close>

lemma locations_capped_elsewhere:
  "(\<forall>p \<in> set (plans_of (fetchDigitalOceanPlans env d1 d2)). length (locations p) \<le> 10)
   \<and> (\<forall>p \<in> set (plans_of (fetchLinodePlans l1 l2)). length (locations p) \<le> 10)
   \<and> (\<forall>p \<in> set (plans_of (fetchVultrPlans env v1 v2)). length (locations p) \<le> 10)
   \<and> (\<forall>p \<in> set (plans_of (fetchUpCloudPlans env u1 u2 u3)). length (locations p) \<le> 10)
   \<and> (\<forall>p \<in> set (plans_of (fetchScalewayPlans env s1)). length (locations p) \<le> 10)"
proof (intro conjI ballI)
  fix p assume "p \<in> set (plans_of (fetchDigitalOceanPlans env d1 d2))"
  from do_emitted [OF this] show "length (locations p) \<le> 10"
    by (auto simp: do_transform_def Let_def)
next
  fix p assume "p \<in> set (plans_of (fetchLinodePlans l1 l2))"
  from linode_emitted [OF this] show "length (locations p) \<le> 10"
    by (auto simp: linode_transform_def Let_def)
next
  fix p assume "p \<in> set (plans_of (fetchVultrPlans env v1 v2))"
  from vultr_emitted [OF this] show "length (locations p) \<le> 10"
    by (auto simp: vultr_transform_def Let_def)
next
  fix p assume "p \<in> set (plans_of (fetchUpCloudPlans env u1 u2 u3))"
  from upcloud_emitted [OF this] show "length (locations p) \<le> 10"
    by (auto simp: upcloud_transform_def Let_def)
next
  fix p assume "p \<in> set (plans_of (fetchScalewayPlans env s1))"
  from scaleway_emitted [OF this] show "length (locations p) \<le> 10"
    by (auto simp: scaleway_transform_def Let_def)
qed

lemma hetzner_locations_all:
  assumes "p \<in> set (plans_of (fetchHetznerPlans env h1 h2))"
  shows "length (locations p) = length (listed (or_empty \<circ> hz_locations) h2)"
proof -
  from hetzner_emitted [OF assms] obtain st where
    "hetzner_transform (listed (or_empty \<circ> hz_locations) h2) st = Inr p" by blast
  from hetzner_transform_Inr [OF this] show ?thesis by auto
qed

text \<open>
  C3. The claim is that every emitted plan lists at most ten locations. The Hetzner
  loader maps all locations of the response without \<open>slice(0, 10)\<close>: with eleven
  locations in the response, the emitted plan lists eleven.
\<close>

theorem hetzner_eleven_locations:
  "map (\<lambda>p. length (locations p))
     (plans_of (fetchHetznerPlans env_all (ok_json \<lparr> hz_server_types = Some [cx11] \<rparr>)
        (ok_json \<lparr> hz_locations = Some eleven_locations \<rparr>))) = [11]"
  by (simp add: fetchHetznerPlans_def hetzner_try_def ok_json_def env_all_def cx11_def
        hetzner_keep_def hetzner_transform_def cheapestPrice_def eleven_locations_def
        plans_of_def Let_def)

section \<open>C4: candidate records and the schema\<close>

lemma positive_number_Nil: "positive_number n path msg = [] \<longleftrightarrow> js_lt (Num 0) n"
  by (cases n) (simp_all add: check_def)

lemma check_Nil: "check c path msg = [] \<longleftrightarrow> c"
  by (simp add: check_def)


lemma vpsSchema_Nil:
  "vpsSchema p = [] \<longleftrightarrow>
     plan_id p \<noteq> [] \<and> provider p \<noteq> [] \<and> name p \<noteq> []
     \<and> js_lt (Num 0) (monthly (price p))
     \<and> (\<forall>y. yearly (price p) = Some y \<longrightarrow> js_lt (Num 0) y)
     \<and> currency (price p) \<in> {''USD'', ''EUR'', ''GBP''}
     \<and> is_integer (cores (cpu (specs p))) \<and> 0 < cores (cpu (specs p))
     \<and> cpu_type (cpu (specs p)) \<in> {''vCPU'', ''CPU'', ''Core''}
     \<and> 0 < ram_amount (ram (specs p))
     \<and> ram_unit (ram (specs p)) \<in> {''MB'', ''GB'', ''TB''}
     \<and> 0 < storage_amount (storage (specs p))
     \<and> storage_unit (storage (specs p)) \<in> {''GB'', ''TB''}
     \<and> storage_type (storage (specs p)) \<in> {''SSD'', ''NVMe'', ''HDD'', ''EBS''}
     \<and> (\<forall>a. bandwidth_amount (bandwidth (specs p)) = Some a \<longrightarrow> 0 \<le> a)
     \<and> bandwidth_unit (bandwidth (specs p)) \<in> {''GB'', ''TB''}
     \<and> features p \<noteq> [] \<and> locations p \<noteq> []
     \<and> 0 \<le> percentage (uptime p) \<and> percentage (uptime p) \<le> 100
     \<and> support p \<noteq> [] \<and> valid_url (website p)"
  unfolding vpsSchema_def
  by (simp add: check_Nil positive_number_Nil Suc_le_eq split: option.splits del: set_simps)
     (simp add: conj_ac)

text \<open>
  An issue of the schema names the field whose check failed, and the check did fail.
\<close>

lemma check_issue: "i \<in> set (check c path msg) \<Longrightarrow> fst i = path \<and> \<not> c"
  by (auto simp: check_def split: if_splits)

lemma positive_number_issue:
  "i \<in> set (positive_number n path msg) \<Longrightarrow> fst i = path \<and> \<not> js_lt (Num 0) n"
  by (cases n) (auto simp: check_def split: if_splits)

lemma optional_positive_issue:
  "i \<in> set (case y of None \<Rightarrow> [] | Some v \<Rightarrow> positive_number v path msg) \<Longrightarrow>
   fst i = path \<and> y \<noteq> None"
  by (cases y) (auto dest: positive_number_issue)

lemma optional_amount_issue:
  "i \<in> set (case b of None \<Rightarrow> [] | Some a \<Rightarrow> check (0 \<le> a) path msg) \<Longrightarrow>
   fst i = path \<and> (\<exists>a. b = Some a \<and> \<not> 0 \<le> a)"
  by (cases b) (auto dest: check_issue)

lemma vpsSchema_issue:
  assumes "i \<in> set (vpsSchema p)"
  shows "(fst i = [''id''] \<and> plan_id p = [])
       \<or> (fst i = [''provider''] \<and> provider p = [])
       \<or> (fst i = [''name''] \<and> name p = [])
       \<or> (fst i = [''price'', ''monthly''] \<and> \<not> js_lt (Num 0) (monthly (price p)))
       \<or> (fst i = [''price'', ''yearly''] \<and> yearly (price p) \<noteq> None)
       \<or> (fst i = [''price'', ''currency'']
           \<and> currency (price p) \<notin> set [''USD'', ''EUR'', ''GBP''])
       \<or> (fst i = [''specs'', ''cpu'', ''cores''])
       \<or> (fst i = [''specs'', ''cpu'', ''type'']
           \<and> cpu_type (cpu (specs p)) \<notin> set [''vCPU'', ''CPU'', ''Core''])
       \<or> (fst i = [''specs'', ''ram'', ''amount''] \<and> \<not> 0 < ram_amount (ram (specs p)))
       \<or> (fst i = [''specs'', ''ram'', ''unit'']
           \<and> ram_unit (ram (specs p)) \<notin> set [''MB'', ''GB'', ''TB''])
       \<or> (fst i = [''specs'', ''storage'', ''amount''])
       \<or> (fst i = [''specs'', ''storage'', ''unit'']
           \<and> storage_unit (storage (specs p)) \<notin> set [''GB'', ''TB''])
       \<or> (fst i = [''specs'', ''storage'', ''type'']
           \<and> storage_type (storage (specs p)) \<notin> set [''SSD'', ''NVMe'', ''HDD'', ''EBS''])
       \<or> (fst i = [''specs'', ''bandwidth'', ''amount'']
           \<and> (\<exists>a. bandwidth_amount (bandwidth (specs p)) = Some a \<and> \<not> 0 \<le> a))
       \<or> (fst i = [''specs'', ''bandwidth'', ''unit'']
           \<and> bandwidth_unit (bandwidth (specs p)) \<notin> set [''GB'', ''TB''])
       \<or> (fst i = [''features''] \<and> features p = [])
       \<or> (fst i = [''locations''] \<and> locations p = [])
       \<or> (fst i = [''uptime'', ''percentage'']
           \<and> \<not> (0 \<le> percentage (uptime p) \<and> percentage (uptime p) \<le> 100))
       \<or> (fst i = [''support''] \<and> support p = [])
       \<or> (fst i = [''website''] \<and> \<not> valid_url (website p))"
  using assms unfolding vpsSchema_def set_append Un_iff
  apply (elim disjE)
  subgoal by (drule check_issue) (simp add: Suc_le_eq)
  subgoal by (drule check_issue) (simp add: Suc_le_eq)
  subgoal by (drule check_issue) (simp add: Suc_le_eq)
  subgoal by (drule positive_number_issue) (simp add: Suc_le_eq)
  subgoal by (drule optional_positive_issue) (simp add: Suc_le_eq)
  subgoal by (drule check_issue) (simp add: Suc_le_eq)
  subgoal by (drule check_issue) (simp add: Suc_le_eq)
  subgoal by (drule check_issue) (simp add: Suc_le_eq)
  subgoal by (drule check_issue) (simp add: Suc_le_eq)
  subgoal by (drule check_issue) (simp add: Suc_le_eq)
  subgoal by (drule check_issue) (simp add: Suc_le_eq)
  subgoal by (drule check_issue) (simp add: Suc_le_eq)
  subgoal by (drule check_issue) (simp add: Suc_le_eq)
  subgoal by (drule check_issue) (simp add: Suc_le_eq)
  subgoal by (drule optional_amount_issue) (simp add: Suc_le_eq)
  subgoal by (drule check_issue) (simp add: Suc_le_eq)
  subgoal by (drule check_issue) (simp add: Suc_le_eq)
  subgoal by (drule check_issue) (simp add: Suc_le_eq)
  subgoal by (drule check_issue) (simp add: Suc_le_eq)
  subgoal by (drule check_issue) (simp add: Suc_le_eq)
  subgoal by (drule check_issue) (simp add: Suc_le_eq)
  subgoal by (drule check_issue) (simp add: Suc_le_eq)
  done







text \<open>
  The Linode loader reports a disk below 1024 MB in \<open>MB\<close>, a unit that the schema does not
  admit for storage.
\<close>

lemma linode_storage_unit:
  "([''specs'', ''storage'', ''unit''], ''Invalid enum value'')
     \<in> set (vpsSchema (linode_transform regions ty)) \<longleftrightarrow> ln_disk ty < 1024"
proof
  assume "([''specs'', ''storage'', ''unit''], ''Invalid enum value'')
            \<in> set (vpsSchema (linode_transform regions ty))"
  from vpsSchema_issue [OF this]
  have "storage_unit (storage (specs (linode_transform regions ty))) \<notin> set [''GB'', ''TB'']"
    by simp
  then show "ln_disk ty < 1024"
    by (simp add: linode_transform_def Let_def split: if_splits)
next
  assume "ln_disk ty < 1024"
  then have "storage_unit (storage (specs (linode_transform regions ty))) = ''MB''"
    by (simp add: linode_transform_def Let_def)
  then show "([''specs'', ''storage'', ''unit''], ''Invalid enum value'')
               \<in> set (vpsSchema (linode_transform regions ty))"
    unfolding vpsSchema_def by (simp add: check_def)
qed





section \<open>C5: the cheapest Hetzner tier\<close>

text \<open>
  C5, amended: every plan emitted by the Hetzner loader comes from a listed server type
  with at least one price tier. When the \<open>gross\<close> string of the first listed tier is
  numeric, \<open>price.monthly\<close> is the minimum of the values of the numeric tiers (tiers that
  are not numeric are skipped), and the tier that \<open>reduce\<close> selects is the first one in the
  listed order that has this minimum value. When the \<open>gross\<close> string of the first listed
  tier is not numeric, \<open>price.monthly\<close> is \<open>NaN\<close>, whatever the other tiers are.
\<close>

theorem hetzner_monthly_price:
  assumes "p \<in> set (plans_of (fetchHetznerPlans env h1 h2))"
  shows "\<exists>st \<in> set (listed (or_empty \<circ> hz_server_types) h1). \<exists>q qs.
           hetzner_transform (listed (or_empty \<circ> hz_locations) h2) st = Inr p
           \<and> hz_prices st = q # qs
           \<and> (\<not> numeric_tier q \<longrightarrow> monthly (price p) = NaN)
           \<and> (numeric_tier q \<longrightarrow>
                monthly (price p)
                  = Num (Min (tier_value ` set (filter numeric_tier (hz_prices st))))
                \<and> (\<exists>c. cheapestPrice (hz_prices st) = Inr c
                       \<and> find (\<lambda>t. numeric_tier t
                                     \<and> tier_value t
                                         = Min (tier_value ` set (filter numeric_tier (hz_prices st))))
                           (hz_prices st) = Some c))"
proof -
  from hetzner_emitted [OF assms] obtain st where
    st: "st \<in> set (listed (or_empty \<circ> hz_server_types) h1)"
    and tr: "hetzner_transform (listed (or_empty \<circ> hz_locations) h2) st = Inr p"
    by blast
  from hetzner_transform_Inr [OF tr] obtain c where
    c: "cheapestPrice (hz_prices st) = Inr c"
    and m: "monthly (price p) = parseFloat (price_monthly_gross c)"
    by blast
  from c obtain q qs where qs: "hz_prices st = q # qs"
    by (cases "hz_prices st") (auto dest: cheapestPrice_nonempty)
  with c have fold: "c = foldl cheaper q qs" by (simp add: cheapestPrice_Cons)
  have nan: "monthly (price p) = NaN" if "\<not> numeric_tier q"
    using that m fold by (simp add: foldl_cheaper_nan numeric_tier_def)
  have num: "monthly (price p)
               = Num (Min (tier_value ` set (filter numeric_tier (hz_prices st))))
             \<and> (\<exists>c. cheapestPrice (hz_prices st) = Inr c
                    \<and> find (\<lambda>t. numeric_tier t
                                  \<and> tier_value t
                                      = Min (tier_value ` set (filter numeric_tier (hz_prices st))))
                        (hz_prices st) = Some c)"
    if "numeric_tier q"
    using foldl_cheaper_min [OF that, of qs] m c
    unfolding qs fold [symmetric] by (simp add: numeric_parse)
  from st tr qs nan num show ?thesis by blast
qed

lemma hetzner_one_plan:
  assumes "cheapestPrice (hz_prices st) = Inr c" and "hz_architecture st = ''x86''"
    and "\<not> hz_deprecated st"
  shows "\<exists>hp. plans_of (fetchHetznerPlans env_all (ok_json \<lparr> hz_server_types = Some [st] \<rparr>)
                          (ok_json \<lparr> hz_locations = Some [falkenstein] \<rparr>)) = [hp]
              \<and> monthly (price hp) = parseFloat (price_monthly_gross c)"
  using assms
  by (simp add: fetchHetznerPlans_def env_all_truthy hetzner_try_ok_json or_empty_def
        hetzner_keep_def plans_of_def hetzner_transform_def Let_def)

lemma unpriced_cheapest:
  "cheapestPrice (hz_prices cx11_first_unpriced) = Inr \<lparr> price_monthly_gross = ''n/a'' \<rparr>"
  "cheapestPrice (hz_prices cx11_later_unpriced) = Inr \<lparr> price_monthly_gross = ''4.15'' \<rparr>"
  by (simp_all add: cx11_first_unpriced_def cx11_later_unpriced_def cheapestPrice_def
        cheaper_def parseFloat_eval)

lemma parsed_prices:
  "parseFloat ''4.15'' = Num (415 / 100)" "parseFloat ''n/a'' = NaN"
  by (simp_all add: parseFloat_eval)

text \<open>
  C5, witness: the tiers \<open>5.00\<close>, \<open>4.15\<close>, \<open>4.50\<close> give 4.15; so do the tiers \<open>5.00\<close>,
  \<open>n/a\<close>, \<open>4.15\<close>, where the tier that is not numeric is skipped; the tiers \<open>n/a\<close>, \<open>4.15\<close>
  give \<open>NaN\<close>.
\<close>

theorem hetzner_monthly_price_witness:
  "map price_monthly_gross (hz_prices cx11) = [''5.00'', ''4.15'', ''4.50'']
   \<and> numeric_tier (hd (hz_prices cx11))
   \<and> map (\<lambda>p. monthly (price p))
       (plans_of (fetchHetznerPlans env_all (ok_json \<lparr> hz_server_types = Some [cx11] \<rparr>)
                    (ok_json \<lparr> hz_locations = Some [falkenstein] \<rparr>)))
     = [Num (415 / 100)]
   \<and> map price_monthly_gross (hz_prices cx11_later_unpriced) = [''5.00'', ''n/a'', ''4.15'']
   \<and> numeric_tier (hd (hz_prices cx11_later_unpriced))
   \<and> map (\<lambda>p. monthly (price p))
       (plans_of (fetchHetznerPlans env_all
                    (ok_json \<lparr> hz_server_types = Some [cx11_later_unpriced] \<rparr>)
                    (ok_json \<lparr> hz_locations = Some [falkenstein] \<rparr>)))
     = [Num (415 / 100)]
   \<and> map price_monthly_gross (hz_prices cx11_first_unpriced) = [''n/a'', ''4.15'']
   \<and> \<not> numeric_tier (hd (hz_prices cx11_first_unpriced))
   \<and> map (\<lambda>p. monthly (price p))
       (plans_of (fetchHetznerPlans env_all
                    (ok_json \<lparr> hz_server_types = Some [cx11_first_unpriced] \<rparr>)
                    (ok_json \<lparr> hz_locations = Some [falkenstein] \<rparr>)))
     = [NaN]"
proof -
  have x: "hz_architecture cx11 = ''x86''" "\<not> hz_deprecated cx11"
    "hz_architecture cx11_later_unpriced = ''x86''" "\<not> hz_deprecated cx11_later_unpriced"
    "hz_architecture cx11_first_unpriced = ''x86''" "\<not> hz_deprecated cx11_first_unpriced"
    by (simp_all add: cx11_def cx11_later_unpriced_def cx11_first_unpriced_def)
  obtain a where a:
    "plans_of (fetchHetznerPlans env_all (ok_json \<lparr> hz_server_types = Some [cx11] \<rparr>)
                 (ok_json \<lparr> hz_locations = Some [falkenstein] \<rparr>)) = [a]"
    using hetzner_one_plan [OF cx11_cheapest x(1,2)] by blast
  obtain b where b:
    "plans_of (fetchHetznerPlans env_all (ok_json \<lparr> hz_server_types = Some [cx11_later_unpriced] \<rparr>)
                 (ok_json \<lparr> hz_locations = Some [falkenstein] \<rparr>)) = [b]"
    using hetzner_one_plan [OF unpriced_cheapest(2) x(3,4)] by blast
  obtain c where c:
    "plans_of (fetchHetznerPlans env_all (ok_json \<lparr> hz_server_types = Some [cx11_first_unpriced] \<rparr>)
                 (ok_json \<lparr> hz_locations = Some [falkenstein] \<rparr>)) = [c]"
    using hetzner_one_plan [OF unpriced_cheapest(1) x(5,6)] by blast
  have mem: "a \<in> set [a]" "b \<in> set [b]" "c \<in> set [c]" by simp_all
  have tiers:
    "map price_monthly_gross (hz_prices cx11) = [''5.00'', ''4.15'', ''4.50'']"
    "map price_monthly_gross (hz_prices cx11_later_unpriced) = [''5.00'', ''n/a'', ''4.15'']"
    "map price_monthly_gross (hz_prices cx11_first_unpriced) = [''n/a'', ''4.15'']"
    by (simp_all add: cx11_def cx11_later_unpriced_def cx11_first_unpriced_def)
  have numeric:
    "filter numeric_tier (hz_prices cx11) = hz_prices cx11"
    "filter numeric_tier (hz_prices cx11_later_unpriced)
       = [\<lparr> price_monthly_gross = ''5.00'' \<rparr>, \<lparr> price_monthly_gross = ''4.15'' \<rparr>]"
    "numeric_tier (hd (hz_prices cx11))" "numeric_tier (hd (hz_prices cx11_later_unpriced))"
    "\<not> numeric_tier (hd (hz_prices cx11_first_unpriced))"
    by (simp_all add: cx11_def cx11_later_unpriced_def cx11_first_unpriced_def numeric_tier_def
          parseFloat_eval)
  have mins:
    "Min (tier_value ` set (hz_prices cx11)) = 415 / 100"
    "Min (tier_value ` set [\<lparr> price_monthly_gross = ''5.00'' \<rparr>,
                            \<lparr> price_monthly_gross = ''4.15'' \<rparr>]) = 415 / 100"
    by (simp_all add: cx11_def tier_value_def parseFloat_eval)
  have "monthly (price a) = Num (415 / 100)"
    using hetzner_monthly_price [OF mem(1) [folded a]] numeric(1,3) mins(1)
    by (auto simp: listed_ok_json or_empty_def)
  moreover have "monthly (price b) = Num (415 / 100)"
    using hetzner_monthly_price [OF mem(2) [folded b]] numeric(2,4) mins(2)
    by (auto simp: listed_ok_json or_empty_def)
  moreover have "monthly (price c) = NaN"
    using hetzner_monthly_price [OF mem(3) [folded c]] numeric(5)
    by (auto simp: listed_ok_json or_empty_def)
  ultimately show ?thesis
    using tiers numeric(3,4,5) by (simp add: a b c)
qed

text \<open>
  C5, counterexample to the claim as stated: a server type whose tiers are \<open>n/a\<close> and
  \<open>4.15\<close> has one numeric tier, of value 4.15, yet its plan is emitted with
  \<open>price.monthly = NaN\<close>.
\<close>

theorem hetzner_unpriced_first_tier:
  "map price_monthly_gross (hz_prices cx11_first_unpriced) = [''n/a'', ''4.15'']
   \<and> map (parseFloat \<circ> price_monthly_gross) (hz_prices cx11_first_unpriced)
       = [NaN, Num (415 / 100)]
   \<and> map (\<lambda>p. monthly (price p))
       (plans_of (fetchHetznerPlans env_all
                    (ok_json \<lparr> hz_server_types = Some [cx11_first_unpriced] \<rparr>)
                    (ok_json \<lparr> hz_locations = Some [falkenstein] \<rparr>)))
     = [NaN]
   \<and> map (\<lambda>p. monthly (price p))
       (plans_of (fetchHetznerPlans env_all
                    (ok_json \<lparr> hz_server_types = Some [cx11_first_unpriced] \<rparr>)
                    (ok_json \<lparr> hz_locations = Some [falkenstein] \<rparr>)))
     \<noteq> [Num (415 / 100)]"
proof -
  have x: "hz_architecture cx11_first_unpriced = ''x86''" "\<not> hz_deprecated cx11_first_unpriced"
    by (simp_all add: cx11_def cx11_first_unpriced_def)
  from hetzner_one_plan [OF unpriced_cheapest(1) x] obtain hp where
    "plans_of (fetchHetznerPlans env_all (ok_json \<lparr> hz_server_types = Some [cx11_first_unpriced] \<rparr>)
                 (ok_json \<lparr> hz_locations = Some [falkenstein] \<rparr>)) = [hp]"
    "monthly (price hp) = NaN"
    by (auto simp: parsed_prices)
  then show ?thesis
    by (simp add: cx11_first_unpriced_def parsed_prices)
qed

section \<open>C6: missing credentials\<close>

lemma warning_includes:
  "str_includes (warning_sign @ ''  VULTR_API_KEY not set, skipping Vultr plans'') ''VULTR_API_KEY''"
  "str_includes (warning_sign @ ''  SCALEWAY_API_KEY not set, skipping Scaleway plans'')
     ''SCALEWAY_API_KEY''"
  "str_includes (warning_sign
       @ ''  UPCLOUD_USERNAME or UPCLOUD_PASSWORD not set, skipping UpCloud plans'')
     ''UPCLOUD_USERNAME''"
  "str_includes (warning_sign
       @ ''  UPCLOUD_USERNAME or UPCLOUD_PASSWORD not set, skipping UpCloud plans'')
     ''UPCLOUD_PASSWORD''"
  "str_includes ''DIGITALOCEAN_API_KEY not set, skipping DigitalOcean plans''
     ''DIGITALOCEAN_API_KEY''"
  "str_includes ''HETZNER_API_KEY not set, skipping Hetzner plans'' ''HETZNER_API_KEY''"
  by (simp_all add: warning_sign_def)

text \<open>
  C6. For each loader that needs credentials, when a required environment variable is
  absent (or empty) the promise resolves to the empty array, no request is issued, and
  the console shows exactly one warning, which names the missing variable.
\<close>

theorem missing_credentials_skip:
  "(\<not> truthy (env ''DIGITALOCEAN_API_KEY'')
      \<longrightarrow> skipped_with_warning ''DIGITALOCEAN_API_KEY'' (fetchDigitalOceanPlans env d1 d2))
   \<and> (\<not> truthy (env ''HETZNER_API_KEY'')
      \<longrightarrow> skipped_with_warning ''HETZNER_API_KEY'' (fetchHetznerPlans env h1 h2))
   \<and> (\<not> truthy (env ''VULTR_API_KEY'')
      \<longrightarrow> skipped_with_warning ''VULTR_API_KEY'' (fetchVultrPlans env v1 v2))
   \<and> (\<not> truthy (env ''UPCLOUD_USERNAME'')
      \<longrightarrow> skipped_with_warning ''UPCLOUD_USERNAME'' (fetchUpCloudPlans env u1 u2 u3))
   \<and> (\<not> truthy (env ''UPCLOUD_PASSWORD'')
      \<longrightarrow> skipped_with_warning ''UPCLOUD_PASSWORD'' (fetchUpCloudPlans env u1 u2 u3))
   \<and> (\<not> truthy (env ''SCALEWAY_API_KEY'')
      \<longrightarrow> skipped_with_warning ''SCALEWAY_API_KEY'' (fetchScalewayPlans env s1))"
  by (simp add: skipped_with_warning_def fetchDigitalOceanPlans_def fetchHetznerPlans_def
        fetchVultrPlans_def fetchUpCloudPlans_def fetchScalewayPlans_def warning_includes)

text \<open>
  C6, witness: the five loaders in an empty environment.
\<close>

theorem missing_credentials_skip_witness:
  "\<not> truthy (env_none ''DIGITALOCEAN_API_KEY'')
   \<and> skipped_with_warning ''DIGITALOCEAN_API_KEY''
       (fetchDigitalOceanPlans env_none (ok_json \<lparr> do_sizes = Some [size_1gb] \<rparr>)
          (ok_json \<lparr> do_region_list = Some [region_nyc1] \<rparr>))
   \<and> \<not> truthy (env_none ''HETZNER_API_KEY'')
   \<and> skipped_with_warning ''HETZNER_API_KEY''
       (fetchHetznerPlans env_none (ok_json \<lparr> hz_server_types = Some [cx11] \<rparr>)
          (ok_json \<lparr> hz_locations = Some [falkenstein] \<rparr>))
   \<and> \<not> truthy (env_none ''VULTR_API_KEY'')
   \<and> skipped_with_warning ''VULTR_API_KEY''
       (fetchVultrPlans env_none (ok_json \<lparr> vu_plans = [] \<rparr>) (ok_json \<lparr> vu_regions = [] \<rparr>))
   \<and> \<not> truthy (env_none ''UPCLOUD_USERNAME'')
   \<and> \<not> truthy (env_none ''UPCLOUD_PASSWORD'')
   \<and> skipped_with_warning ''UPCLOUD_USERNAME''
       (fetchUpCloudPlans env_none (ok_json \<lparr> uc_plans_plan = [] \<rparr>)
          (ok_json \<lparr> uc_prices_zone = [] \<rparr>) (ok_json \<lparr> uc_zones_zone = [] \<rparr>))
   \<and> skipped_with_warning ''UPCLOUD_PASSWORD''
       (fetchUpCloudPlans env_none (ok_json \<lparr> uc_plans_plan = [] \<rparr>)
          (ok_json \<lparr> uc_prices_zone = [] \<rparr>) (ok_json \<lparr> uc_zones_zone = [] \<rparr>))
   \<and> \<not> truthy (env_none ''SCALEWAY_API_KEY'')
   \<and> skipped_with_warning ''SCALEWAY_API_KEY''
       (fetchScalewayPlans env_none (ok_json \<lparr> sw_servers = [] \<rparr>))"
  using missing_credentials_skip [where env = env_none
      and ?d1.0 = "ok_json \<lparr> do_sizes = Some [size_1gb] \<rparr>"
      and ?d2.0 = "ok_json \<lparr> do_region_list = Some [region_nyc1] \<rparr>"
      and ?h1.0 = "ok_json \<lparr> hz_server_types = Some [cx11] \<rparr>"
      and ?h2.0 = "ok_json \<lparr> hz_locations = Some [falkenstein] \<rparr>"
      and ?v1.0 = "ok_json \<lparr> vu_plans = [] \<rparr>" and ?v2.0 = "ok_json \<lparr> vu_regions = [] \<rparr>"
      and ?u1.0 = "ok_json \<lparr> uc_plans_plan = [] \<rparr>"
      and ?u2.0 = "ok_json \<lparr> uc_prices_zone = [] \<rparr>"
      and ?u3.0 = "ok_json \<lparr> uc_zones_zone = [] \<rparr>"
      and ?s1.0 = "ok_json \<lparr> sw_servers = [] \<rparr>"]
  by (simp add: env_none_def)

section \<open>C7: a rejecting loader and the aggregation\<close>

text \<open>
  C7, as amended. The promise of \<open>vpsPlans.loader\<close> resolves exactly when the promises
  of all six loaders resolve, and its output is then their plans concatenated in
  registration order. When the promise of one loader rejects, the promise of
  \<open>vpsPlans.loader\<close> rejects and no plan is returned.
\<close>

theorem loader_resolves_iff:
  "(resolves (loader_of d h l v u s)
      \<longleftrightarrow> resolves d \<and> resolves h \<and> resolves l \<and> resolves v \<and> resolves u \<and> resolves s)
   \<and> (\<not> resolves (loader_of d h l v u s) \<longrightarrow> plans_of (loader_of d h l v u s) = [])
   \<and> (resolves (loader_of d h l v u s)
      \<longrightarrow> plans_of (loader_of d h l v u s)
          = plans_of d @ plans_of h @ plans_of l @ plans_of v @ plans_of u @ plans_of s)"
proof -
  obtain de dr he hr le lr ve vr ue ur se sr where runs:
    "d = (de, dr)" "h = (he, hr)" "l = (le, lr)" "v = (ve, vr)" "u = (ue, ur)" "s = (se, sr)"
    by (cases d, cases h, cases l, cases v, cases u, cases s) blast
  show ?thesis
    unfolding runs
    by (cases dr; cases hr; cases lr; cases vr; cases ur; cases sr)
       (simp_all add: loader_of_def resolves_def plans_of_def)
qed

text \<open>
  C7, witness: the aggregation with all six loaders resolving, and with the fourth one
  rejecting.
\<close>

theorem loader_resolves_iff_witness:
  "resolves (loader_of digitalocean_run idle_run idle_run idle_run idle_run idle_run)
   \<and> plans_of (loader_of digitalocean_run idle_run idle_run idle_run idle_run idle_run)
       = plans_of digitalocean_run
   \<and> \<not> resolves (loader_of digitalocean_run idle_run idle_run rejecting_run idle_run idle_run)
   \<and> plans_of (loader_of digitalocean_run idle_run idle_run rejecting_run idle_run idle_run) = []"
  using loader_resolves_iff [of digitalocean_run idle_run idle_run idle_run idle_run idle_run]
    loader_resolves_iff [of digitalocean_run idle_run idle_run rejecting_run idle_run idle_run]
    example_runs
  by simp

text \<open>
  C7, counterexample to the claim as stated: the DigitalOcean loader resolves with one
  plan and four others resolve, the second loader rejects; the promise of
  \<open>vpsPlans.loader\<close> does not resolve and the DigitalOcean plan is not in its output.
\<close>

theorem loader_rejects_with_adapter:
  "resolves digitalocean_run \<and> length (plans_of digitalocean_run) = 1
   \<and> resolves idle_run
   \<and> \<not> resolves (loader_of digitalocean_run rejecting_run idle_run idle_run idle_run idle_run)
   \<and> plans_of (loader_of digitalocean_run rejecting_run idle_run idle_run idle_run idle_run) = []"
  by (simp add: loader_of_def resolves_def plans_of_def rejecting_run_def idle_run_def
        digitalocean_run_def fetchDigitalOceanPlans_def do_try_ok_json env_all_def
        size_1gb_def do_keep_def)

section \<open>C8: identifiers in the aggregated collection\<close>

lemma do_ids:
  "\<exists>P. map plan_id (plans_of (fetchDigitalOceanPlans env a b))
        = map (\<lambda>sz. ''digitalocean-'' @ do_slug sz) (filter P (listed (or_empty \<circ> do_sizes) a))"
proof -
  have id: "plan_id (do_transform regs sz) = ''digitalocean-'' @ do_slug sz" for regs sz
    by (simp add: do_transform_def Let_def)
  from do_plans [of env a b] show ?thesis
  proof
    assume "plans_of (fetchDigitalOceanPlans env a b) = []"
    then show ?thesis by (intro exI [of _ "\<lambda>_. False"]) simp
  next
    assume "plans_of (fetchDigitalOceanPlans env a b)
      = map (do_transform (listed (or_empty \<circ> do_region_list) b))
          (filter do_keep (listed (or_empty \<circ> do_sizes) a))"
    then show ?thesis by (intro exI [of _ do_keep]) (simp add: id o_def)
  qed
qed

lemma linode_ids:
  "\<exists>P. map plan_id (plans_of (fetchLinodePlans a b))
        = map (\<lambda>ty. ''linode-'' @ ln_id ty) (filter P (listed (or_empty \<circ> ln_types_data) a))"
proof -
  have id: "plan_id (linode_transform regs ty) = ''linode-'' @ ln_id ty" for regs ty
    by (simp add: linode_transform_def Let_def)
  from linode_plans [of a b] show ?thesis
  proof
    assume "plans_of (fetchLinodePlans a b) = []"
    then show ?thesis by (intro exI [of _ "\<lambda>_. False"]) simp
  next
    assume "plans_of (fetchLinodePlans a b)
      = map (linode_transform (listed (or_empty \<circ> ln_regions_data) b))
          (filter linode_keep (listed (or_empty \<circ> ln_types_data) a))"
    then show ?thesis by (intro exI [of _ linode_keep]) (simp add: id o_def)
  qed
qed

lemma hetzner_ids:
  "\<exists>P. map plan_id (plans_of (fetchHetznerPlans env a b))
        = map (\<lambda>st. ''hetzner-'' @ toLowerCase (hz_name st))
            (filter P (listed (or_empty \<circ> hz_server_types) a))"
proof -
  from hetzner_plans [of env a b] show ?thesis
  proof
    assume "plans_of (fetchHetznerPlans env a b) = []"
    then show ?thesis by (intro exI [of _ "\<lambda>_. False"]) simp
  next
    assume "map_throwing (hetzner_transform (listed (or_empty \<circ> hz_locations) b))
        (filter (hetzner_keep env) (listed (or_empty \<circ> hz_server_types) a))
      = Inr (plans_of (fetchHetznerPlans env a b))"
    from map_throwing_map [OF this, of plan_id "\<lambda>st. ''hetzner-'' @ toLowerCase (hz_name st)"]
    show ?thesis using hetzner_transform_Inr by blast
  qed
qed

lemma vultr_ids:
  "\<exists>P. map plan_id (plans_of (fetchVultrPlans env a b))
        = map (\<lambda>pl. ''vultr-'' @ vu_id pl) (filter P (listed vu_plans a))"
proof -
  have id: "plan_id (vultr_transform rmap pl) = ''vultr-'' @ vu_id pl" for rmap pl
    by (simp add: vultr_transform_def Let_def)
  from vultr_plans [of env a b] show ?thesis
  proof
    assume "plans_of (fetchVultrPlans env a b) = []"
    then show ?thesis by (intro exI [of _ "\<lambda>_. False"]) simp
  next
    assume "plans_of (fetchVultrPlans env a b)
      = map (vultr_transform (regionMap (listed vu_regions b)))
          (filter vultr_keep (listed vu_plans a))"
    then show ?thesis by (intro exI [of _ vultr_keep]) (simp add: id o_def)
  qed
qed

lemma upcloud_ids:
  "\<exists>P. map plan_id (plans_of (fetchUpCloudPlans env a b c))
        = map (\<lambda>pl. ''upcloud-'' @ toLowerCase (uc_name pl)) (filter P (listed uc_plans_plan a))"
proof -
  have id: "plan_id (upcloud_transform pricing zones pl) = ''upcloud-'' @ toLowerCase (uc_name pl)"
    for pricing zones pl
    by (simp add: upcloud_transform_def Let_def)
  from upcloud_plans [of env a b c] show ?thesis
  proof
    assume "plans_of (fetchUpCloudPlans env a b c) = []"
    then show ?thesis by (intro exI [of _ "\<lambda>_. False"]) simp
  next
    assume "\<exists>pricing. body_of b = Some pricing
        \<and> plans_of (fetchUpCloudPlans env a b c)
          = map (upcloud_transform pricing (map ucz_description (listed uc_zones_zone c)))
              (listed uc_plans_plan a)"
    then show ?thesis by (intro exI [of _ "\<lambda>_. True"]) (auto simp: id o_def)
  qed
qed

lemma scaleway_ids:
  "\<exists>P. map plan_id (plans_of (fetchScalewayPlans env a))
        = map (\<lambda>entry. ''scaleway-'' @ toLowerCase (fst entry)) (filter P (listed sw_servers a))"
proof -
  have id: "plan_id (scaleway_transform entry) = ''scaleway-'' @ toLowerCase (fst entry)" for entry
    by (simp add: scaleway_transform_def Let_def)
  from scaleway_plans [of env a] show ?thesis
  proof
    assume "plans_of (fetchScalewayPlans env a) = []"
    then show ?thesis by (intro exI [of _ "\<lambda>_. False"]) simp
  next
    assume "plans_of (fetchScalewayPlans env a)
      = map scaleway_transform (filter scaleway_keep (listed sw_servers a))"
    then show ?thesis by (intro exI [of _ scaleway_keep]) (simp add: id o_def)
  qed
qed

text \<open>
  C8, as amended. When the identifiers that each provider lists are pairwise distinct
  in the form the loader uses them (the slug, id or name as listed for DigitalOcean,
  Linode and Vultr; the lower-cased name for Hetzner, UpCloud and Scaleway), the
  \<open>id\<close> fields of the aggregated output are pairwise distinct, whatever the
  environment and whichever requests fail.
\<close>

theorem aggregated_ids_distinct:
  assumes "distinct (map do_slug (listed (or_empty \<circ> do_sizes) (w_do_sizes w)))"
    and "distinct (map (\<lambda>st. toLowerCase (hz_name st))
                    (listed (or_empty \<circ> hz_server_types) (w_hz_server_types w)))"
    and "distinct (map ln_id (listed (or_empty \<circ> ln_types_data) (w_ln_types w)))"
    and "distinct (map vu_id (listed vu_plans (w_vu_plans w)))"
    and "distinct (map (\<lambda>pl. toLowerCase (uc_name pl)) (listed uc_plans_plan (w_uc_plans w)))"
    and "distinct (map (\<lambda>entry. toLowerCase (fst entry)) (listed sw_servers (w_sw_servers w)))"
  shows "distinct (map plan_id (plans_of (vpsPlans_loader env w)))"
proof -
  obtain Pd where d: "map plan_id (plans_of (fetchDigitalOceanPlans env (w_do_sizes w) (w_do_regions w)))
      = map (\<lambda>sz. ''digitalocean-'' @ do_slug sz)
          (filter Pd (listed (or_empty \<circ> do_sizes) (w_do_sizes w)))"
    using do_ids by blast
  obtain Ph where h: "map plan_id (plans_of (fetchHetznerPlans env (w_hz_server_types w) (w_hz_locations w)))
      = map (\<lambda>st. ''hetzner-'' @ toLowerCase (hz_name st))
          (filter Ph (listed (or_empty \<circ> hz_server_types) (w_hz_server_types w)))"
    using hetzner_ids by blast
  obtain Pl where l: "map plan_id (plans_of (fetchLinodePlans (w_ln_types w) (w_ln_regions w)))
      = map (\<lambda>ty. ''linode-'' @ ln_id ty)
          (filter Pl (listed (or_empty \<circ> ln_types_data) (w_ln_types w)))"
    using linode_ids by blast
  obtain Pv where v: "map plan_id (plans_of (fetchVultrPlans env (w_vu_plans w) (w_vu_regions w)))
      = map (\<lambda>pl. ''vultr-'' @ vu_id pl) (filter Pv (listed vu_plans (w_vu_plans w)))"
    using vultr_ids by blast
  obtain Pu where u: "map plan_id (plans_of (fetchUpCloudPlans env (w_uc_plans w) (w_uc_prices w) (w_uc_zones w)))
      = map (\<lambda>pl. ''upcloud-'' @ toLowerCase (uc_name pl))
          (filter Pu (listed uc_plans_plan (w_uc_plans w)))"
    using upcloud_ids by blast
  obtain Ps where s: "map plan_id (plans_of (fetchScalewayPlans env (w_sw_servers w)))
      = map (\<lambda>entry. ''scaleway-'' @ toLowerCase (fst entry))
          (filter Ps (listed sw_servers (w_sw_servers w)))"
    using scaleway_ids by blast
  define A where "A = map plan_id (plans_of (fetchDigitalOceanPlans env (w_do_sizes w) (w_do_regions w)))"
  define B where "B = map plan_id (plans_of (fetchHetznerPlans env (w_hz_server_types w) (w_hz_locations w)))"
  define C where "C = map plan_id (plans_of (fetchLinodePlans (w_ln_types w) (w_ln_regions w)))"
  define D where "D = map plan_id (plans_of (fetchVultrPlans env (w_vu_plans w) (w_vu_regions w)))"
  define E where "E = map plan_id (plans_of (fetchUpCloudPlans env (w_uc_plans w) (w_uc_prices w) (w_uc_zones w)))"
  define F where "F = map plan_id (plans_of (fetchScalewayPlans env (w_sw_servers w)))"
  have dist: "distinct A" "distinct B" "distinct C" "distinct D" "distinct E" "distinct F"
    unfolding A_def B_def C_def D_def E_def F_def d h l v u s
    by (rule distinct_prefixed, rule assms)+
  have hd: "\<forall>x \<in> set A. hd x = CHR ''d''" "\<forall>x \<in> set B. hd x = CHR ''h''"
    "\<forall>x \<in> set C. hd x = CHR ''l''" "\<forall>x \<in> set D. hd x = CHR ''v''"
    "\<forall>x \<in> set E. hd x = CHR ''u''" "\<forall>x \<in> set F. hd x = CHR ''s''"
    unfolding A_def B_def C_def D_def E_def F_def d h l v u s by auto
  have "distinct (E @ F)"
    using dist(5,6) hd(5) by (rule distinct_by_head) (use hd(6) in auto)
  then have "distinct (D @ E @ F)"
    using dist(4) hd(4) by (intro distinct_by_head [of D]) (use hd(5,6) in auto)
  then have "distinct (C @ D @ E @ F)"
    using dist(3) hd(3) by (intro distinct_by_head [of C]) (use hd(4,5,6) in auto)
  then have "distinct (B @ C @ D @ E @ F)"
    using dist(2) hd(2) by (intro distinct_by_head [of B]) (use hd(3,4,5,6) in auto)
  then have "distinct (A @ B @ C @ D @ E @ F)"
    using dist(1) hd(1) by (intro distinct_by_head [of A]) (use hd(2,3,4,5,6) in auto)
  then show ?thesis
    by (simp add: loader_plans A_def B_def C_def D_def E_def F_def)
qed

text \<open>
  C8, witness: one plan from each of the six providers.
\<close>

theorem aggregated_ids_distinct_witness:
  "distinct (map do_slug (listed (or_empty \<circ> do_sizes) (w_do_sizes small_world)))
   \<and> distinct (map (\<lambda>st. toLowerCase (hz_name st))
                 (listed (or_empty \<circ> hz_server_types) (w_hz_server_types small_world)))
   \<and> distinct (map ln_id (listed (or_empty \<circ> ln_types_data) (w_ln_types small_world)))
   \<and> distinct (map vu_id (listed vu_plans (w_vu_plans small_world)))
   \<and> distinct (map (\<lambda>pl. toLowerCase (uc_name pl)) (listed uc_plans_plan (w_uc_plans small_world)))
   \<and> distinct (map (\<lambda>entry. toLowerCase (fst entry)) (listed sw_servers (w_sw_servers small_world)))
   \<and> length (plans_of (vpsPlans_loader env_all small_world)) = 6
   \<and> distinct (map plan_id (plans_of (vpsPlans_loader env_all small_world)))"
  using aggregated_ids_distinct [of small_world env_all]
  by (simp add: small_world_listed loader_plans small_world_plans)

text \<open>
  C8, counterexample to the claim as stated: Hetzner lists the server types \<open>cx11\<close>
  and \<open>CX11\<close>, two distinct names; both plans get the id \<open>hetzner-cx11\<close>.
\<close>

theorem ids_collide_by_case:
  "distinct (map do_slug (listed (or_empty \<circ> do_sizes) (w_do_sizes case_world)))
   \<and> map hz_name (listed (or_empty \<circ> hz_server_types) (w_hz_server_types case_world))
       = [''cx11'', ''CX11'']
   \<and> distinct (map hz_name (listed (or_empty \<circ> hz_server_types) (w_hz_server_types case_world)))
   \<and> distinct (map ln_id (listed (or_empty \<circ> ln_types_data) (w_ln_types case_world)))
   \<and> distinct (map vu_id (listed vu_plans (w_vu_plans case_world)))
   \<and> distinct (map uc_name (listed uc_plans_plan (w_uc_plans case_world)))
   \<and> distinct (map fst (listed sw_servers (w_sw_servers case_world)))
   \<and> map plan_id (plans_of (vpsPlans_loader env_all case_world))
       = [''hetzner-cx11'', ''hetzner-cx11'']
   \<and> \<not> distinct (map plan_id (plans_of (vpsPlans_loader env_all case_world)))"
proof -
  have others:
    "plans_of (fetchDigitalOceanPlans env_all (w_do_sizes case_world) (w_do_regions case_world)) = []"
    "plans_of (fetchLinodePlans (w_ln_types case_world) (w_ln_regions case_world)) = []"
    "plans_of (fetchVultrPlans env_all (w_vu_plans case_world) (w_vu_regions case_world)) = []"
    "plans_of (fetchUpCloudPlans env_all (w_uc_plans case_world) (w_uc_prices case_world)
                 (w_uc_zones case_world)) = []"
    "plans_of (fetchScalewayPlans env_all (w_sw_servers case_world)) = []"
    by (simp_all add: case_world_def contained_failure_no_plans do_failure linode_failure
          vultr_failure upcloud_failure scaleway_failure env_all_truthy
          unsuccessful_server_error)
  have hz: "map plan_id (plans_of (fetchHetznerPlans env_all (w_hz_server_types case_world)
                                    (w_hz_locations case_world)))
            = [''hetzner-cx11'', ''hetzner-cx11'']"
    by (simp add: case_world_def fetchHetznerPlans_def env_all_truthy hetzner_try_ok_json
          or_empty_def hetzner_keep_def hetzner_transform_def cx11_cheapest Let_def plans_of_def)
       (simp add: cx11_def toLowerCase_def lower_char_def)
  show ?thesis
    by (simp add: loader_plans others hz)
       (simp add: case_world_def listed_ok_json listed_server_error or_empty_def cx11_def)
qed

section \<open>C9: DigitalOcean memory conversion at 1024 MB\<close>

text \<open>
  C9, as amended. The DigitalOcean loader, given an available raw size with
  \<open>memory: 1024\<close>, \<open>disk: 51200\<close> and \<open>transfer: 2000\<close>, emits one plan whose
  \<open>ram\<close> is \<open>{amount: 1, unit: "GB"}\<close>: the memory is divided by 1024.
\<close>

theorem do_ram_at_1024:
  assumes "truthy (env ''DIGITALOCEAN_API_KEY'')"
  shows "map (\<lambda>p. ram (specs p))
           (plans_of (fetchDigitalOceanPlans env
              (ok_json \<lparr> do_sizes = Some [sz\<lparr> do_available := True, do_memory := 1024,
                                             do_disk := 51200, do_transfer := 2000 \<rparr>] \<rparr>)
              (ok_json \<lparr> do_region_list = Some regions \<rparr>)))
         = [\<lparr> ram_amount = 1, ram_unit = ''GB'' \<rparr>]"
  using assms
  by (simp add: fetchDigitalOceanPlans_def do_try_ok_json plans_of_def do_keep_def
        do_transform_def)

text \<open>C9, witness: the amended statement at the size \<open>s-1vcpu-1gb\<close> with an API key set.\<close>

theorem do_ram_at_1024_witness:
  "truthy (env_all ''DIGITALOCEAN_API_KEY'') \<and>
   map (\<lambda>p. ram (specs p))
     (plans_of (fetchDigitalOceanPlans env_all
        (ok_json \<lparr> do_sizes = Some [size_1gb\<lparr> do_available := True, do_memory := 1024,
                                             do_disk := 51200, do_transfer := 2000 \<rparr>] \<rparr>)
        (ok_json \<lparr> do_region_list = Some [region_nyc1] \<rparr>)))
    = [\<lparr> ram_amount = 1, ram_unit = ''GB'' \<rparr>]"
proof -
  have k: "truthy (env_all ''DIGITALOCEAN_API_KEY'')" by (simp add: env_all_def)
  show ?thesis
    using do_ram_at_1024 [where env = env_all and sz = size_1gb and regions = "[region_nyc1]"] k
    by simp
qed

text \<open>
  C9, counterexample to the claim as stated: for that raw size the emitted \<open>ram\<close> is
  not \<open>{amount: 2, unit: "GB"}\<close>.
\<close>

theorem do_ram_at_1024_not_two:
  "map (\<lambda>p. ram (specs p))
     (plans_of (fetchDigitalOceanPlans env_all
        (ok_json \<lparr> do_sizes = Some [size_1gb] \<rparr>)
        (ok_json \<lparr> do_region_list = Some [region_nyc1] \<rparr>)))
    \<noteq> [\<lparr> ram_amount = 2, ram_unit = ''GB'' \<rparr>]"
  by (simp add: fetchDigitalOceanPlans_def do_try_ok_json plans_of_def do_keep_def
        do_transform_def env_all_def size_1gb_def region_nyc1_def)

section \<open>C10: an UpCloud plan without a price entry\<close>

text \<open>
  C10. With both UpCloud credentials set and the three responses successful, a plan
  \<open>pl\<close> for which the first zone of the pricing response has no item
  \<open>server_plan_<name>\<close> is emitted all the same (the output has one record per listed
  plan, at the same position); its \<open>price.monthly\<close> is 0 and every other field is what
  the loader produces for any plan, the price-dependent tags being those of price 0.
\<close>

theorem upcloud_missing_price:
  assumes "truthy (env ''UPCLOUD_USERNAME'')" and "truthy (env ''UPCLOUD_PASSWORD'')"
    and "uc_prices_zone pricing = (zone, items) # others"
    and "map_of items (''server_plan_'' @ uc_name pl) = None"
    and "i < length plans" and "plans ! i = pl"
  shows "length (plans_of (fetchUpCloudPlans env (ok_json \<lparr> uc_plans_plan = plans \<rparr>)
                             (ok_json pricing) (ok_json \<lparr> uc_zones_zone = zones \<rparr>)))
           = length plans
         \<and> plans_of (fetchUpCloudPlans env (ok_json \<lparr> uc_plans_plan = plans \<rparr>)
                      (ok_json pricing) (ok_json \<lparr> uc_zones_zone = zones \<rparr>)) ! i
           = \<lparr> plan_id = ''upcloud-'' @ toLowerCase (uc_name pl),
               provider = ''UpCloud'',
               name = uc_name pl,
               description = None,
               price = \<lparr> monthly = Num 0, yearly = None, currency = ''USD'' \<rparr>,
               specs = \<lparr>
                 cpu = \<lparr> cores = uc_core_number pl, cpu_type = ''vCPU'' \<rparr>,
                 ram = \<lparr> ram_amount = uc_memory_amount pl / 1024, ram_unit = ''GB'' \<rparr>,
                 storage = \<lparr> storage_amount = uc_storage_size pl, storage_unit = ''GB'',
                             storage_type = (if uc_storage_tier pl = ''maxiops'' then ''NVMe''
                                             else ''SSD'') \<rparr>,
                 bandwidth = \<lparr> bandwidth_amount = Some (uc_public_traffic_out pl / 1024),
                               bandwidth_unit = ''TB'', unlimited = False \<rparr> \<rparr>,
               features = upcloud_features pl,
               locations = take 10 (map ucz_description zones),
               uptime = \<lparr> percentage = 100, sla = True \<rparr>,
               support = ''24/7 Support'',
               website = ''https://upcloud.com'',
               featured = (uc_name pl \<in> set [''1xCPU-2GB'', ''2xCPU-4GB'', ''4xCPU-8GB'']),
               tags = upcloud_tags (Num 0) pl \<rparr>"
proof -
  have p: "planPricing pricing pl = None"
    using assms(3,4) by (simp add: planPricing_def)
  have m: "upcloud_monthlyPrice pricing pl = Num 0"
    by (simp add: upcloud_monthlyPrice_def p round_rat_0)
  have out: "plans_of (fetchUpCloudPlans env (ok_json \<lparr> uc_plans_plan = plans \<rparr>)
                        (ok_json pricing) (ok_json \<lparr> uc_zones_zone = zones \<rparr>))
             = map (upcloud_transform pricing (map ucz_description zones)) plans"
    using assms(1,2) by (simp add: fetchUpCloudPlans_def upcloud_try_ok_json plans_of_def)
  show ?thesis
    unfolding out using assms(5,6) by (simp add: upcloud_transform_def m Let_def)
qed

text \<open>
  C10, witness: two plans, the first zone pricing only the first of them.
\<close>

theorem upcloud_missing_price_witness:
  "truthy (env_all ''UPCLOUD_USERNAME'') \<and> truthy (env_all ''UPCLOUD_PASSWORD'')
   \<and> uc_prices_zone upcloud_prices
       = (''de-fra1'', [(''server_plan_2xCPU-4GB'', ''0.0357'')])
         # [(''fi-hel1'', [(''server_plan_1xCPU-1GB'', ''0.0104'')])]
   \<and> map_of [(''server_plan_2xCPU-4GB'', ''0.0357'')] (''server_plan_'' @ uc_name upcloud_1x1) = None
   \<and> (1::nat) < length [upcloud_2x4, upcloud_1x1]
   \<and> length (plans_of (fetchUpCloudPlans env_all
                 (ok_json \<lparr> uc_plans_plan = [upcloud_2x4, upcloud_1x1] \<rparr>)
                 (ok_json upcloud_prices) (ok_json \<lparr> uc_zones_zone = [helsinki] \<rparr>))) = 2
   \<and> (\<lambda>p. (name p, monthly (price p), locations p, tags p))
       (plans_of (fetchUpCloudPlans env_all
                    (ok_json \<lparr> uc_plans_plan = [upcloud_2x4, upcloud_1x1] \<rparr>)
                    (ok_json upcloud_prices) (ok_json \<lparr> uc_zones_zone = [helsinki] \<rparr>)) ! 1)
       = (''1xCPU-1GB'', Num 0, [''Helsinki #1''],
          [''europe'', ''high-performance'', ''budget'', ''ultra-budget'', ''nvme-storage''])"
proof -
  have c: "truthy (env_all ''UPCLOUD_USERNAME'')" "truthy (env_all ''UPCLOUD_PASSWORD'')"
    by (simp_all add: env_all_def)
  have z: "uc_prices_zone upcloud_prices
       = (''de-fra1'', [(''server_plan_2xCPU-4GB'', ''0.0357'')])
         # [(''fi-hel1'', [(''server_plan_1xCPU-1GB'', ''0.0104'')])]"
    by (simp add: upcloud_prices_def)
  have n: "map_of [(''server_plan_2xCPU-4GB'', ''0.0357'')]
             (''server_plan_'' @ uc_name upcloud_1x1) = None"
    by (simp add: upcloud_1x1_def)
  have i: "(1::nat) < length [upcloud_2x4, upcloud_1x1]"
    "[upcloud_2x4, upcloud_1x1] ! 1 = upcloud_1x1" by simp_all
  show ?thesis
    using c z n i(1) upcloud_missing_price [OF c z n i, where zones = "[helsinki]"]
    by (simp add: upcloud_1x1_def helsinki_def upcloud_tags_def)
qed

end
